theory Spec2Isabelle
  imports Main
begin

section \<open>JavaScript primitives used by the relay\<close>

text \<open>
  Strings are \<^typ>\<open>string\<close>; an optional string is a value that may be \<open>undefined\<close>.
  \<open>startsWith\<close> and \<open>str_includes\<close> are \<open>String.prototype.startsWith\<close> and
  \<open>String.prototype.includes\<close>.
\<close>

definition startsWith :: "string \<Rightarrow> string \<Rightarrow> bool" where
  "startsWith s p = (take (length p) s = p)"

fun str_includes :: "string \<Rightarrow> string \<Rightarrow> bool" where
  "str_includes [] sub = (sub = [])"
| "str_includes (c # cs) sub = (startsWith (c # cs) sub \<or> str_includes cs sub)"

text \<open>
  \<open>x || d\<close> on an optional string: \<open>undefined\<close> and the empty string are both falsy,
  so the default replaces either.
\<close>

definition or_default :: "string option \<Rightarrow> string \<Rightarrow> string" where
  "or_default v d = (case v of None \<Rightarrow> d | Some x \<Rightarrow> if x = [] then d else x)"

text \<open>
  \<open>s.split(c)[0]\<close> is the text before the first \<open>c\<close> (all of \<open>s\<close> when there is none);
  \<open>s.split(c)[1]\<close> is the text between the first and the second \<open>c\<close>, and
  \<open>undefined\<close> when \<open>s\<close> has no \<open>c\<close>.
\<close>

definition split_0 :: "char \<Rightarrow> string \<Rightarrow> string" where
  "split_0 c s = takeWhile (\<lambda>x. x \<noteq> c) s"

definition split_1 :: "char \<Rightarrow> string \<Rightarrow> string option" where
  "split_1 c s =
     (if c \<in> set s then Some (takeWhile (\<lambda>x. x \<noteq> c) (tl (dropWhile (\<lambda>x. x \<noteq> c) s)))
      else None)"

text \<open>
  Decimal rendering of a number inside a template literal; \<open>digit_char\<close> is only
  applied to a digit below ten.
\<close>

definition digit_char :: "nat \<Rightarrow> char" where
  "digit_char d = ''0123456789'' ! d"

fun show_nat :: "nat \<Rightarrow> string" where
  "show_nat n =
     (if n < 10 then [digit_char n] else show_nat (n div 10) @ [digit_char (n mod 10)])"

declare show_nat.simps [simp del]

lemma show_nat_numeral [simp]:
  "show_nat (numeral k) =
     (if (numeral k :: nat) < 10 then [digit_char (numeral k)]
      else show_nat (numeral k div 10) @ [digit_char (numeral k mod 10)])"
  by (rule show_nat.simps)

lemma show_nat_0 [simp]: "show_nat 0 = ''0''"
  by (simp add: show_nat.simps [of 0] digit_char_def)

lemma show_nat_1 [simp]: "show_nat (Suc 0) = ''1''"
  by (simp add: show_nat.simps [of "Suc 0"] digit_char_def)

text \<open>
  \<open>(size / 1024 / 1024).toFixed(2)\<close>: dividing by a power of two is exact in binary
  floating point, and \<open>toFixed\<close> rounds the exact quotient to the nearest hundredth,
  a tie going up. So the printed hundredths are \<open>(200 * bytes + 2^20) div 2^21\<close>.
\<close>

definition toFixed2_MB :: "nat \<Rightarrow> string" where
  "toFixed2_MB bytes =
     (let n = (200 * bytes + 1048576) div 2097152
      in show_nat (n div 100) @ ''.'' @ [digit_char (n mod 100 div 10), digit_char (n mod 10)])"

text \<open>
  \<open>toUpperCase\<close> on the letters \<open>a\<close> to \<open>z\<close>; the handler applies it only to a
  declared type that passed the classifier (image, video, gif or document).
\<close>

definition toUpperCase :: "string \<Rightarrow> string" where
  "toUpperCase s =
     map (\<lambda>c. case map_of (zip ''abcdefghijklmnopqrstuvwxyz'' ''ABCDEFGHIJKLMNOPQRSTUVWXYZ'') c of
                 Some u \<Rightarrow> u | None \<Rightarrow> c) s"

text \<open>
  The two symbols that end log lines, byte for byte as the literals stand in the
  source file (a check mark and a no-entry sign, stored there in a doubly encoded
  form).
\<close>

definition check_mark :: string where
  "check_mark = [CHR 0xC3, CHR 0xA2, CHR 0xC5, CHR 0x93, CHR 0xE2, CHR 0x80, CHR 0xA6]"

definition no_entry_sign :: string where
  "no_entry_sign =
     [CHR 0xC3, CHR 0xB0, CHR 0xC5, CHR 0xB8, CHR 0xC5, CHR 0xA1, CHR 0xC2, CHR 0xAB]"

text \<open>
  A thrown value: an \<open>Error\<close> object, as the engine and the runtime throw them.
  The handlers read only \<open>e.message\<close>; the \<open>TypeError\<close> is the one the runtime
  raises when a method is called on \<open>undefined\<close>.
\<close>

datatype js_error = Error (err_message: string) | TypeError (err_message: string)

section \<open>Data model\<close>

text \<open>
  A routing rule as the dashboard posts it and as the comment on \<open>config.rules\<close>
  documents it: \<open>{ source: 'groupId', targets: ['groupId1', 'groupId2'] }\<close>.
\<close>

record rule =
  source :: string
  targets :: "string list"

text \<open>A chat as \<open>msg.getChat()\<close> and \<open>client.getChats()\<close> return it.\<close>

record chat =
  chat_id :: string
  chat_name :: string
  isGroup :: bool

text \<open>An entry of \<open>availableGroups\<close>: \<open>{ id: chat.id._serialized, name: chat.name }\<close>.\<close>

record group_record =
  group_id :: string
  group_name :: string

text \<open>
  The fields of a message that the \<open>message_create\<close> handler reads:
  \<open>msg.id._serialized\<close>, \<open>msg.type\<close>, \<open>msg._data.mimetype\<close> (may be undefined),
  \<open>msg.body\<close> (may be undefined) and \<open>msg.hasMedia\<close>.
\<close>

record message =
  msg_id :: string
  msg_type :: string
  msg_mimetype :: "string option"
  msg_body :: "string option"
  msg_hasMedia :: bool

text \<open>What \<open>msg.downloadMedia()\<close> resolves to: base64 text and a MIME type.\<close>

record media =
  data :: "string option"
  mimetype :: "string option"

text \<open>The \<open>MessageMedia\<close> built from the temporary file, and the send options.\<close>

record message_media =
  mm_mimetype :: string
  mm_filename :: string
  mm_bytes :: "nat list"

record send_options =
  caption :: string
  sendAudioAsVoice :: bool
  sendMediaAsDocument :: bool

text \<open>Calls into the messaging engine, in the order they are made.\<close>

datatype engine_call =
    Initialize
  | Destroy
  | GetChats
  | DownloadMedia string
  | SendMessage string message_media send_options
  | Forward string string

text \<open>What \<open>io.emit\<close> broadcasts to the Event Sink.\<close>

datatype event =
    Status string
  | Log string
  | Groups "group_record list"
  | Ready
  | Qr string

text \<open>
  The file system: a path holds a directory, a file of bytes, or the configuration
  document. The document stands for the text \<open>JSON.stringify(config, null, 2)\<close> and is
  represented by the table it serialises.
\<close>

type_synonym path = string

type_synonym bytes = "nat list"

datatype node = Dir | File bytes | Document "rule list"

text \<open>
  The callbacks handed to \<open>setTimeout\<close>: \<open>initializeClient\<close>, the closure that
  deletes the session directories (\<open>sessionCleanup\<close> below), \<open>fetchGroups\<close>, and the
  closure that unlinks a temporary file (\<open>unlinkTemp\<close> below).
\<close>

datatype task = InitializeClient | SessionCleanup | FetchGroups | UnlinkTemp path

text \<open>
  The process state: the module-level variables \<open>config.rules\<close>, \<open>currentStatus\<close>,
  \<open>availableGroups\<close> and \<open>isReconnecting\<close>; the counter \<open>attempts\<close> of the
  \<open>ready\<close> handler's closure; the file system; the pending \<open>setTimeout\<close> calls with
  their delays in milliseconds; everything emitted to the Event Sink; and every call
  made into the engine. Console output is not part of the state.
\<close>

record state =
  config_rules :: "rule list"
  currentStatus :: string
  availableGroups :: "group_record list"
  isReconnecting :: bool
  attempts :: nat
  fs :: "path \<Rightarrow> node option"
  timers :: "(task \<times> nat) list"
  sink :: "event list"
  calls :: "engine_call list"

definition emit :: "event \<Rightarrow> state \<Rightarrow> state" where
  "emit e s = s\<lparr>sink := sink s @ [e]\<rparr>"

definition engine :: "engine_call \<Rightarrow> state \<Rightarrow> state" where
  "engine c s = s\<lparr>calls := calls s @ [c]\<rparr>"

definition setTimeout :: "task \<Rightarrow> nat \<Rightarrow> state \<Rightarrow> state" where
  "setTimeout f ms s = s\<lparr>timers := timers s @ [(f, ms)]\<rparr>"

definition updateStatus :: "string \<Rightarrow> state \<Rightarrow> state" where
  "updateStatus status s = emit (Status status) (s\<lparr>currentStatus := status\<rparr>)"

subsection \<open>File-system calls\<close>

definition path_join :: "path \<Rightarrow> string \<Rightarrow> path" where
  "path_join dir filename = dir @ ''/'' @ filename"

definition CONFIG_FILE :: path where
  "CONFIG_FILE = ''config.json''"

definition publicDir :: path where
  "publicDir = ''public''"

definition authPath :: path where
  "authPath = ''.wwebjs_auth''"

definition cachePath :: path where
  "cachePath = ''.wwebjs_cache''"

definition existsSync :: "state \<Rightarrow> path \<Rightarrow> bool" where
  "existsSync s p = (fs s p \<noteq> None)"

definition mkdirSync :: "path \<Rightarrow> state \<Rightarrow> state" where
  "mkdirSync p s = s\<lparr>fs := (fs s)(p \<mapsto> Dir)\<rparr>"

definition writeFileSync :: "path \<Rightarrow> node \<Rightarrow> state \<Rightarrow> state" where
  "writeFileSync p n s = s\<lparr>fs := (fs s)(p \<mapsto> n)\<rparr>"

definition statSync_size :: "state \<Rightarrow> path \<Rightarrow> nat" where
  "statSync_size s p = (case fs s p of Some (File content) \<Rightarrow> length content | _ \<Rightarrow> 0)"

definition unlinkSync :: "path \<Rightarrow> state \<Rightarrow> state" where
  "unlinkSync p s = s\<lparr>fs := (fs s)(p := None)\<rparr>"

text \<open>
  \<open>within p q\<close>: the path \<open>q\<close> is \<open>p\<close> or lies below it.
\<close>

definition within :: "path \<Rightarrow> path \<Rightarrow> bool" where
  "within p q = (q = p \<or> startsWith q (p @ ''/''))"

text \<open>
  \<open>fs.rmSync(p, { recursive: true, force: true })\<close> removes \<open>p\<close> and everything
  below it. The call can still throw (a locked or busy entry), and the handler has a
  \<open>catch\<close> for that, so the outcome is an input: \<open>None\<close> when the call returns, and
  \<open>Some (e, gone)\<close> when it throws \<open>e\<close> after having removed the entries \<open>gone\<close>
  at or below \<open>p\<close> (possibly none of them, never an entry elsewhere).
\<close>

definition rmSync ::
  "(path \<Rightarrow> (js_error \<times> path list) option) \<Rightarrow> path \<Rightarrow> state \<Rightarrow> js_error option \<times> state" where
  "rmSync rm_outcome p s =
     (case rm_outcome p of
        Some (e, gone) \<Rightarrow>
          (Some e, s\<lparr>fs := (\<lambda>q. if within p q \<and> q \<in> set gone then None else fs s q)\<rparr>)
      | None \<Rightarrow> (None, s\<lparr>fs := (\<lambda>q. if within p q then None else fs s q)\<rparr>))"

section \<open>Routing-table API\<close>

text \<open>
  \<^verbatim>\<open>
  app.post('/api/config/rules', (req, res) => {
      const newRule = req.body;
      config.rules.push(newRule);
      fs.writeFileSync(CONFIG_FILE, JSON.stringify(config, null, 2));
      res.json({ success: true, config });
  });
  \<close>
  The handlers have no \<open>catch\<close>: writing the document is taken to succeed.
\<close>

datatype response = Success "rule list" | Status_400 string

definition post_rule :: "rule \<Rightarrow> state \<Rightarrow> state \<times> response" where
  "post_rule newRule s =
     (let s = s\<lparr>config_rules := config_rules s @ [newRule]\<rparr>;
          s = writeFileSync CONFIG_FILE (Document (config_rules s)) s
      in (s, Success (config_rules s)))"

text \<open>
  \<^verbatim>\<open>
  app.delete('/api/config/rules/:index', (req, res) => {
      const index = parseInt(req.params.index);
      if (index >= 0 && index < config.rules.length) {
          config.rules.splice(index, 1);
          fs.writeFileSync(CONFIG_FILE, JSON.stringify(config, null, 2));
          res.json({ success: true, config });
      } else {
          res.status(400).json({ error: 'Invalid index' });
      }
  });
  \<close>
  The argument is the value of \<open>parseInt(req.params.index)\<close>: an integer, or
  \<open>NaN\<close> (\<open>None\<close>), for which both comparisons are false.
  \<open>splice(index, 1)\<close> removes the element at \<open>index\<close>.
\<close>

definition splice1 :: "nat \<Rightarrow> 'a list \<Rightarrow> 'a list" where
  "splice1 i xs = take i xs @ drop (Suc i) xs"

definition delete_rule :: "int option \<Rightarrow> state \<Rightarrow> state \<times> response" where
  "delete_rule index s =
     (case index of
        None \<Rightarrow> (s, Status_400 ''Invalid index'')
      | Some i \<Rightarrow>
          if i \<ge> 0 \<and> i < int (length (config_rules s)) then
            let s = s\<lparr>config_rules := splice1 (nat i) (config_rules s)\<rparr>;
                s = writeFileSync CONFIG_FILE (Document (config_rules s)) s
            in (s, Success (config_rules s))
          else (s, Status_400 ''Invalid index''))"

section \<open>Session lifecycle\<close>

text \<open>
  \<open>initializeClient\<close>. Its inputs are the outcome of \<open>client.initialize()\<close>
  (\<open>None\<close>: it resolved; \<open>Some e\<close>: it threw \<open>e\<close>) and of the \<open>client.destroy()\<close>
  in the repair branch, whose error the empty \<open>catch\<close> swallows. The callback
  of the 1000 ms timer is the task \<open>SessionCleanup\<close>, modelled by
  \<open>sessionCleanup\<close> below.
\<close>

definition initializeClient :: "js_error option \<Rightarrow> js_error option \<Rightarrow> state \<Rightarrow> state" where
  "initializeClient initialize_outcome destroy_outcome s =
     (let s = updateStatus ''Initializing...'' s;
          s = emit (Log ''Launching WhatsApp Engine... (Please wait for Chrome Window)'') s;
          s = engine Initialize s
      in case initialize_outcome of
           None \<Rightarrow> s
         | Some e \<Rightarrow>
             let s = updateStatus ''Init Error'' s;
                 errorMsg = or_default (Some (err_message e)) []
             in if str_includes errorMsg ''Execution context was destroyed'' \<or>
                   str_includes errorMsg ''Protocol error'' \<or>
                   str_includes errorMsg ''Evaluation failed''
                then
                  let s = emit (Log ''CRITICAL ERROR: Session corrupted. Performing auto-cleanup...'') s;
                      s = engine Destroy s
                  in setTimeout SessionCleanup 1000 s
                else
                  let s = emit (Log ''Initialization failed. Retrying in 5s...'') s
                  in setTimeout InitializeClient 5000 s)"

text \<open>
  The callback of the 1000 ms timer:
  \<^verbatim>\<open>
  try {
      if (fs.existsSync(authPath)) { fs.rmSync(authPath, { recursive: true, force: true }); }
      if (fs.existsSync(cachePath)) { fs.rmSync(cachePath, { recursive: true, force: true }); }
      io.emit('log', 'Session reset. Restarting in 3s...');
  } catch (rmErr) {
      io.emit('log', 'Auto-cleanup failed. Please run fix_connection.bat manually.');
  }
  setTimeout(initializeClient, 3000);
  \<close>
\<close>

definition sessionCleanup ::
  "(path \<Rightarrow> (js_error \<times> path list) option) \<Rightarrow> state \<Rightarrow> state" where
  "sessionCleanup rm_outcome s =
     (let failed = emit (Log ''Auto-cleanup failed. Please run fix_connection.bat manually.'');
          s =
            (case (if existsSync s authPath then rmSync rm_outcome authPath s else (None, s)) of
               (Some rmErr, s) \<Rightarrow> failed s
             | (None, s) \<Rightarrow>
                 (case (if existsSync s cachePath then rmSync rm_outcome cachePath s
                        else (None, s)) of
                    (Some rmErr, s) \<Rightarrow> failed s
                  | (None, s) \<Rightarrow> emit (Log ''Session reset. Restarting in 3s...'') s))
      in setTimeout InitializeClient 3000 s)"

section \<open>Group directory refresh\<close>

text \<open>
  One run of \<open>fetchGroups\<close>. Its input is the outcome of \<open>client.getChats()\<close>:
  \<open>Inl e\<close> when it throws, \<open>Inr chats\<close> when it resolves.
\<close>

definition fetchGroups :: "js_error + chat list \<Rightarrow> state \<Rightarrow> state" where
  "fetchGroups getChats_outcome s =
     (let s = s\<lparr>attempts := attempts s + 1\<rparr>;
          s = engine GetChats s
      in case getChats_outcome of
           Inl e \<Rightarrow>
             let s = emit (Log ''Error reading chats. Retrying...'') s
             in if attempts s < 20 then setTimeout FetchGroups 5000 s else s
         | Inr chats \<Rightarrow>
             let groups = map (\<lambda>chat. \<lparr>group_id = chat_id chat, group_name = chat_name chat\<rparr>)
                              (filter isGroup chats)
             in if length groups > 0 then
                  let s = s\<lparr>availableGroups := groups\<rparr>;
                      s = emit (Groups (availableGroups s)) s;
                      s = emit (Log (''Success: Loaded '' @ show_nat (length (availableGroups s)) @
                                     '' groups.'')) s
                  in if attempts s < 5 then setTimeout FetchGroups 5000 s else s
                else
                  let s = emit (Log (''Syncing... Scanned '' @ show_nat (length chats) @
                                     '' chats so far (Waiting for groups)'')) s
                  in if attempts s < 20 then setTimeout FetchGroups 5000 s
                     else emit (Log (''Could not find groups automatically. Please click '' @
                                     [CHR 0x22] @ ''Refresh Groups'' @ [CHR 0x22] @ '' manually.'')) s)"

text \<open>
  The loop the timers drive: run \<open>fetchGroups\<close>; when that run handed \<open>fetchGroups\<close>
  to \<open>setTimeout\<close>, the timer fires (it leaves the pending list) and the next run
  starts. \<open>getChats\<close> gives the outcome of the fetch of each run, by the value of
  \<open>attempts\<close> before the run.
\<close>

definition rescheduled :: "state \<Rightarrow> state \<Rightarrow> bool" where
  "rescheduled s s' = ((FetchGroups, 5000) \<in> set (drop (length (timers s)) (timers s')))"

lemma fetchGroups_attempts: "attempts (fetchGroups r s) = attempts s + 1"
  by (simp add: fetchGroups_def Let_def emit_def engine_def setTimeout_def
           split: sum.splits)

lemma fetchGroups_rescheduled:
  "rescheduled s (fetchGroups r s) \<Longrightarrow> attempts s + 1 < 20"
  by (auto simp: rescheduled_def fetchGroups_def Let_def emit_def engine_def setTimeout_def
           split: sum.splits if_splits)

function fetch_loop :: "(nat \<Rightarrow> js_error + chat list) \<Rightarrow> state \<Rightarrow> state" where
  "fetch_loop getChats s =
     (let s' = fetchGroups (getChats (attempts s)) s
      in if rescheduled s s' then fetch_loop getChats (s'\<lparr>timers := timers s\<rparr>) else s')"
  by pat_completeness auto
termination
proof (relation "measure (\<lambda>(getChats, s). 20 - attempts s)")
  show "wf (measure (\<lambda>(getChats, s). 20 - attempts s))"
    by simp
next
  fix getChats :: "nat \<Rightarrow> js_error + chat list" and s s' :: state
  assume "s' = fetchGroups (getChats (attempts s)) s" and "rescheduled s s'"
  then show "((getChats, s'\<lparr>timers := timers s\<rparr>), (getChats, s))
               \<in> measure (\<lambda>(getChats, s). 20 - attempts s)"
    using fetchGroups_rescheduled [of s "getChats (attempts s)"]
    by (simp add: fetchGroups_attempts)
qed

declare fetch_loop.simps [simp del]

text \<open>
  Whether a fetch resolved with at least one group chat: the condition
  \<open>groups.length > 0\<close> of a run that did not throw.
\<close>

definition found_groups :: "js_error + chat list \<Rightarrow> bool" where
  "found_groups r = (case r of Inl e \<Rightarrow> False | Inr chats \<Rightarrow> filter isGroup chats \<noteq> [])"

text \<open>
  The \<open>ready\<close> handler up to the first run: status \<open>Connected\<close>, the ready
  signal, \<open>isReconnecting = false\<close>, a log line, \<open>let attempts = 0\<close>; then the loop.
\<close>

definition on_ready :: "(nat \<Rightarrow> js_error + chat list) \<Rightarrow> state \<Rightarrow> state" where
  "on_ready getChats s =
     (let s = updateStatus ''Connected'' s;
          s = emit Ready s;
          s = s\<lparr>isReconnecting := False\<rparr>;
          s = emit (Log ''Fetching groups... (This can take 30s for new logins)'') s;
          s = s\<lparr>attempts := 0\<rparr>
      in fetch_loop getChats s)"

text \<open>The last log line of a loop that ran out of attempts without finding a group.\<close>

definition give_up_notice :: event where
  "give_up_notice =
     Log (''Could not find groups automatically. Please click '' @
          [CHR 0x22] @ ''Refresh Groups'' @ [CHR 0x22] @ '' manually.'')"

section \<open>Message classifier\<close>

text \<open>
  The classification computed inside the \<open>message_create\<close> handler:
  \<^verbatim>\<open>
  let isMedia = ['image', 'video', 'gif'].includes(type);
  let mime = msg._data.mimetype || '';
  if (type === 'document') {
      if (mime.startsWith('image/') || mime.startsWith('video/')) { isMedia = true; }
  }
  \<close>
  The result is the pair of the two variables after the block.
\<close>

definition classify :: "message \<Rightarrow> bool \<times> string" where
  "classify msg =
     (let type = msg_type msg;
          isMedia = (type \<in> set [''image'', ''video'', ''gif'']);
          mime = or_default (msg_mimetype msg) [];
          isMedia = (if type = ''document''
                     then (if startsWith mime ''image/'' \<or> startsWith mime ''video/''
                           then True else isMedia)
                     else isMedia)
      in (isMedia, mime))"

section \<open>Delivery pipeline\<close>

subsection \<open>Extension mapping\<close>

definition mimeMap :: "(string \<times> string) list" where
  "mimeMap =
     [(''video/mp4'', ''mp4''),
      (''video/3gpp'', ''3gp''),
      (''video/quicktime'', ''mov''),
      (''video/x-matroska'', ''mkv''),
      (''image/jpeg'', ''jpg''),
      (''image/png'', ''png''),
      (''image/webp'', ''webp''),
      (''image/gif'', ''gif''),
      (''audio/ogg'', ''ogg''),
      (''audio/mp4'', ''m4a''),
      (''audio/mpeg'', ''mp3'')]"

text \<open>
  \<open>mimeMap\<close> is an object literal, so \<open>mimeMap[key]\<close> also finds the members every
  object inherits from \<open>Object.prototype\<close>. Such a member is a function (for
  \<open>__proto__\<close>, the prototype object), hence truthy; \<open>Inherited key\<close> stands for it.
\<close>

definition object_prototype_members :: "string list" where
  "object_prototype_members =
     [''constructor'', ''__defineGetter__'', ''__defineSetter__'', ''hasOwnProperty'',
      ''__lookupGetter__'', ''__lookupSetter__'', ''isPrototypeOf'', ''propertyIsEnumerable'',
      ''toString'', ''valueOf'', ''__proto__'', ''toLocaleString'']"

datatype js_value = Str string | Inherited string

definition mimeMap_get :: "string \<Rightarrow> js_value option" where
  "mimeMap_get key =
     (case map_of mimeMap key of
        Some v \<Rightarrow> Some (Str v)
      | None \<Rightarrow> if key \<in> set object_prototype_members then Some (Inherited key) else None)"

text \<open>How a template literal renders the value (V8 prints a built-in function so).\<close>

definition template_str :: "js_value \<Rightarrow> string" where
  "template_str v =
     (case v of
        Str s \<Rightarrow> s
      | Inherited key \<Rightarrow>
          if key = ''__proto__'' then ''[object Object]''
          else ''function '' @ (if key = ''constructor'' then ''Object'' else key) @
               ''() { [native code] }'')"

text \<open>
  \<^verbatim>\<open>
  let ext = mimeMap[mime.split(';')[0]] || mime.split('/')[1].split(';')[0] || 'bin';
  \<close>
  Every value of the table is a non-empty string, so a hit is truthy. On a miss
  \<open>mime.split('/')[1]\<close> is evaluated; when \<open>mime\<close> has no \<open>/\<close> it is \<open>undefined\<close> and
  calling \<open>.split\<close> on it throws a \<open>TypeError\<close>, whose message V8 words as
  \<open>Cannot read properties of undefined (reading 'split')\<close>.
\<close>

definition reading_split_of_undefined :: string where
  "reading_split_of_undefined =
     ''Cannot read properties of undefined (reading '' @ [CHR 0x27] @ ''split'' @ [CHR 0x27] @ '')''"

definition ext_of :: "string \<Rightarrow> js_error + js_value" where
  "ext_of mime =
     (case mimeMap_get (split_0 CHR '';'' mime) of
        Some v \<Rightarrow> Inr v
      | None \<Rightarrow>
          (case split_1 CHR ''/'' mime of
             None \<Rightarrow> Inl (TypeError reading_split_of_undefined)
           | Some subtype \<Rightarrow>
               let e = split_0 CHR '';'' subtype
               in Inr (Str (if e = [] then ''bin'' else e))))"

subsection \<open>Stage 1: native re-upload\<close>

text \<open>
  What one delivery attempt observes from outside: the outcome of
  \<open>msg.downloadMedia()\<close> (\<open>Inl e\<close>: it threw; \<open>Inr None\<close>: it resolved to
  \<open>undefined\<close>), the value of \<open>Date.now()\<close>, and the outcomes of
  \<open>client.sendMessage\<close> and \<open>msg.forward\<close> (\<open>Some e\<close>: it threw). The calls of
  stage 1 into the file system are taken to succeed.
\<close>

record attempt_env =
  download_outcome :: "js_error + media option"
  now :: nat
  send_outcome :: "js_error option"
  forward_outcome :: "js_error option"

text \<open>\<open>media && media.data\<close>: the base64 text when it is there and not empty.\<close>

definition media_data :: "media option \<Rightarrow> string option" where
  "media_data m =
     (case m of
        None \<Rightarrow> None
      | Some m \<Rightarrow> (case data m of None \<Rightarrow> None | Some d \<Rightarrow> if d = [] then None else Some d))"

text \<open>\<open>media.mimetype\<close>, read once \<open>media\<close> is known to be there.\<close>

definition media_mimetype :: "media option \<Rightarrow> string option" where
  "media_mimetype m = (case m of None \<Rightarrow> None | Some m \<Rightarrow> mimetype m)"

definition readFile :: "state \<Rightarrow> path \<Rightarrow> bytes" where
  "readFile s p = (case fs s p of Some (File content) \<Rightarrow> content | _ \<Rightarrow> [])"

text \<open>
  The body of the inner \<open>try\<close> of stage 1. \<open>b64\<close> is the decoder that
  \<open>fs.writeFileSync(filePath, media.data, 'base64')\<close> applies to the text. The result
  is \<open>Inl e\<close> when the body throws \<open>e\<close>, otherwise \<open>Inr sentAsMedia\<close>, with the state
  reached at that point.
\<close>

definition native_upload_try ::
  "(string \<Rightarrow> bytes) \<Rightarrow> message \<Rightarrow> string \<Rightarrow> attempt_env \<Rightarrow> state \<Rightarrow> (js_error + bool) \<times> state" where
  "native_upload_try b64 msg targetId env s =
     (let s = emit (Log ''Downloading media content...'') s;
          s = engine (DownloadMedia (msg_id msg)) s
      in case download_outcome env of
           Inl e \<Rightarrow> (Inl e, s)
         | Inr media \<Rightarrow>
             (case media_data media of
                None \<Rightarrow> (Inr False, emit (Log ''Download failed (Data unavailable).'') s)
              | Some payload \<Rightarrow>
                  let mime = or_default (media_mimetype media) ''application/octet-stream''
                  in case ext_of mime of
                       Inl e \<Rightarrow> (Inl e, s)
                     | Inr ext \<Rightarrow>
                         let filename = ''temp_'' @ show_nat (now env) @ ''.'' @ template_str ext;
                             s = (if \<not> existsSync s publicDir then mkdirSync publicDir s else s);
                             filePath = path_join publicDir filename;
                             s = writeFileSync filePath (File (b64 payload)) s;
                             stats_size = statSync_size s filePath
                         in if stats_size = 0 then (Inl (Error ''File empty after write''), s)
                            else
                              let mediaFromFile =
                                    \<lparr>mm_mimetype = mime, mm_filename = filename,
                                     mm_bytes = readFile s filePath\<rparr>;
                                  sendOptions =
                                    \<lparr>caption = or_default (msg_body msg) [],
                                     sendAudioAsVoice =
                                       (msg_type msg = ''ptt'' \<or> msg_type msg = ''audio''),
                                     sendMediaAsDocument = False\<rparr>;
                                  s = emit (Log (''Media cached locally ('' @ toFixed2_MB stats_size @
                                                 '' MB). Sending...'')) s;
                                  s = engine (SendMessage targetId mediaFromFile sendOptions) s
                              in case send_outcome env of
                                   Some e \<Rightarrow> (Inl e, s)
                                 | None \<Rightarrow>
                                     let s = emit (Log (''--> Sent as Native Media '' @ check_mark)) s;
                                         s = setTimeout (UnlinkTemp filePath) 30000 s
                                     in (Inr True, s)))"

text \<open>
  Stage 1 with its \<open>catch (downloadErr)\<close>; the result is \<open>sentAsMedia\<close>.
\<close>

definition native_upload ::
  "(string \<Rightarrow> bytes) \<Rightarrow> message \<Rightarrow> string \<Rightarrow> attempt_env \<Rightarrow> state \<Rightarrow> bool \<times> state" where
  "native_upload b64 msg targetId env s =
     (case native_upload_try b64 msg targetId env s of
        (Inr sentAsMedia, s) \<Rightarrow> (sentAsMedia, s)
      | (Inl downloadErr, s) \<Rightarrow>
          (False, emit (Log (''Native Send failed: '' @ err_message downloadErr @
                             ''. Trying forward...'')) s))"

text \<open>The callback of the 30000 ms timer: \<open>if (fs.existsSync(filePath)) fs.unlinkSync(filePath)\<close>.\<close>

definition unlinkTemp :: "path \<Rightarrow> state \<Rightarrow> state" where
  "unlinkTemp filePath s = (if existsSync s filePath then unlinkSync filePath s else s)"

subsection \<open>One target: both stages\<close>

text \<open>
  The body of the loop over targets, for a target other than the message's chat:
  the outer \<open>try\<close> with stage 1, stage 2 and its \<open>catch (e)\<close>. Only \<open>msg.forward\<close> can
  throw past stage 1.
\<close>

definition deliver ::
  "(string \<Rightarrow> bytes) \<Rightarrow> message \<Rightarrow> string \<Rightarrow> attempt_env \<Rightarrow> state \<Rightarrow> state" where
  "deliver b64 msg targetId env s =
     (let type = msg_type msg;
          s = emit (Log (''--> Processing '' @ type @ '' for target...'')) s;
          (sentAsMedia, s) =
             (if msg_hasMedia msg then native_upload b64 msg targetId env s else (False, s))
      in if \<not> sentAsMedia then
           let s = emit (Log ''Switching to Fallback Forward...'') s;
               s = engine (Forward (msg_id msg) targetId) s
           in case forward_outcome env of
                Some e \<Rightarrow> emit (Log (''!! Error sending '' @ type @ '': '' @ err_message e)) s
              | None \<Rightarrow> emit (Log (''--> Forwarded (Fallback) '' @ check_mark)) s
         else s)"

subsection \<open>The loops over rules and targets\<close>

text \<open>
  \<^verbatim>\<open>
  for (const rule of validRules) {
      for (const targetId of rule.targets) {
          if (targetId === chat.id._serialized) continue;
          ...
  \<close>
  The counter numbers the delivery attempts of one message; \<open>envs k\<close> is what attempt
  \<open>k\<close> observes.
\<close>

fun deliver_targets ::
  "(string \<Rightarrow> bytes) \<Rightarrow> message \<Rightarrow> string \<Rightarrow> (nat \<Rightarrow> attempt_env) \<Rightarrow> string list \<Rightarrow>
     nat \<times> state \<Rightarrow> nat \<times> state" where
  "deliver_targets b64 msg chatId envs [] ks = ks"
| "deliver_targets b64 msg chatId envs (targetId # rest) (k, s) =
     (if targetId = chatId then deliver_targets b64 msg chatId envs rest (k, s)
      else deliver_targets b64 msg chatId envs rest (Suc k, deliver b64 msg targetId (envs k) s))"

fun deliver_rules ::
  "(string \<Rightarrow> bytes) \<Rightarrow> message \<Rightarrow> string \<Rightarrow> (nat \<Rightarrow> attempt_env) \<Rightarrow> rule list \<Rightarrow>
     nat \<times> state \<Rightarrow> nat \<times> state" where
  "deliver_rules b64 msg chatId envs [] ks = ks"
| "deliver_rules b64 msg chatId envs (rule # rest) ks =
     deliver_rules b64 msg chatId envs rest (deliver_targets b64 msg chatId envs (targets rule) ks)"

subsection \<open>The message handler\<close>

text \<open>
  \<open>client.on('message_create', ...)\<close>. \<open>getChat\<close> is the outcome of
  \<open>msg.getChat()\<close>; when it throws, the outermost \<open>catch\<close> logs to the console only.
  For a text message (\<open>type === 'chat'\<close>) the skip notice is commented out in the source.
\<close>

definition message_create ::
  "(string \<Rightarrow> bytes) \<Rightarrow> message \<Rightarrow> js_error + chat \<Rightarrow> (nat \<Rightarrow> attempt_env) \<Rightarrow> state \<Rightarrow> state" where
  "message_create b64 msg getChat envs s =
     (case getChat of
        Inl error \<Rightarrow> s
      | Inr chat \<Rightarrow>
          if \<not> isGroup chat then s
          else
            let s = emit (Log (''DEBUG: Saw '' @ msg_type msg @ '' in '' @ chat_name chat)) s;
                validRules = filter (\<lambda>r. source r = chat_id chat) (config_rules s)
            in if length validRules > 0 then
                 let type = msg_type msg;
                     (isMedia, mime) = classify msg
                 in if isMedia then
                      let s = emit (Log (''Detected '' @ toUpperCase type @ '' ('' @ mime @ '') in '' @
                                         chat_name chat)) s
                      in snd (deliver_rules b64 msg (chat_id chat) envs validRules (0, s))
                    else if type = ''chat'' then s
                    else emit (Log (''Skipped '' @ type @ '' (Not an image/video) '' @
                                    no_entry_sign)) s
               else s)"

subsection \<open>A base64 decoder\<close>

text \<open>
  A base64 decoder, used to evaluate the pipeline on concrete, well-formed payloads:
  it reads the standard alphabet and the URL-safe one (\<open>-\<close> for \<open>+\<close>, \<open>_\<close> for \<open>/\<close>),
  skips every other character and stops at the first \<open>=\<close>. The general theorems
  hold for every decoder.
\<close>

definition b64_value :: "char \<Rightarrow> nat option" where
  "b64_value c =
     (let n = (of_char c :: nat)
      in if 65 \<le> n \<and> n \<le> 90 then Some (n - 65)
         else if 97 \<le> n \<and> n \<le> 122 then Some (n - 71)
         else if 48 \<le> n \<and> n \<le> 57 then Some (n + 4)
         else if c = CHR ''+'' \<or> c = CHR ''-'' then Some 62
         else if c = CHR ''/'' \<or> c = CHR ''_'' then Some 63
         else None)"

fun b64_bytes :: "nat list \<Rightarrow> bytes" where
  "b64_bytes (a # b # c # d # rest) =
     (let n = ((a * 64 + b) * 64 + c) * 64 + d
      in (n div 65536) # (n div 256 mod 256) # (n mod 256) # b64_bytes rest)"
| "b64_bytes [a, b, c] =
     (let n = (a * 64 + b) * 64 + c in [n div 1024, n div 4 mod 256])"
| "b64_bytes [a, b] = [(a * 64 + b) div 16]"
| "b64_bytes _ = []"

definition base64_decode :: "string \<Rightarrow> bytes" where
  "base64_decode text =
     b64_bytes (List.map_filter b64_value (takeWhile (\<lambda>c. c \<noteq> CHR ''='') text))"

subsection \<open>What an observer sees of the delivery attempts\<close>

text \<open>
  Each pass through the loop body starts by emitting the processing notice, and the
  calls that transmit to a target are \<open>sendMessage\<close> and \<open>forward\<close>.
  \<open>attempt_step\<close> is one pass through the body, with the attempt counter.
\<close>

definition processing_notice :: "string \<Rightarrow> event" where
  "processing_notice type = Log (''--> Processing '' @ type @ '' for target...'')"

fun transmission_target :: "engine_call \<Rightarrow> string option" where
  "transmission_target (SendMessage targetId m opts) = Some targetId"
| "transmission_target (Forward m targetId) = Some targetId"
| "transmission_target _ = None"

definition transmissions :: "state \<Rightarrow> string list" where
  "transmissions s = List.map_filter transmission_target (calls s)"

definition attempt_step ::
  "(string \<Rightarrow> bytes) \<Rightarrow> message \<Rightarrow> (nat \<Rightarrow> attempt_env) \<Rightarrow> nat \<times> state \<Rightarrow> string \<Rightarrow> nat \<times> state" where
  "attempt_step b64 msg envs ks targetId =
     (Suc (fst ks), deliver b64 msg targetId (envs (fst ks)) (snd ks))"

section \<open>Concrete inputs\<close>

text \<open>
  The state right after start-up with no configuration file on disk: the empty table
  has been written to \<open>config.json\<close>, the directory \<open>public\<close> of the dashboard
  exists, nothing has been emitted or scheduled yet.
\<close>

definition initial_state :: state where
  "initial_state =
     \<lparr>config_rules = [],
      currentStatus = ''Initializing...'',
      availableGroups = [],
      isReconnecting = False,
      attempts = 0,
      fs = [CONFIG_FILE \<mapsto> Document [], publicDir \<mapsto> Dir],
      timers = [],
      sink = [],
      calls = []\<rparr>"

definition rule_A_to_B :: rule where
  "rule_A_to_B = \<lparr>source = ''A@g.us'', targets = [''B@g.us'']\<rparr>"

definition rule_A_to_BC :: rule where
  "rule_A_to_BC = \<lparr>source = ''A@g.us'', targets = [''B@g.us'', ''C@g.us'']\<rparr>"

definition rule_X_to_Y :: rule where
  "rule_X_to_Y = \<lparr>source = ''X@g.us'', targets = [''Y@g.us'']\<rparr>"

definition three_rules :: state where
  "three_rules = initial_state\<lparr>config_rules := [rule_A_to_B, rule_A_to_BC, rule_X_to_Y]\<rparr>"

text \<open>
  A state in which both session directories exist with entries below them, a file
  system on which every removal succeeds, and one on which removing the auth
  directory throws after one of its files is gone (the browser still holds a lock on
  another) while removing the cache directory would succeed.
\<close>

definition session_on_disk :: state where
  "session_on_disk =
     initial_state\<lparr>fs := (fs initial_state)
        (authPath \<mapsto> Dir,
         authPath @ ''/session'' \<mapsto> Dir,
         authPath @ ''/session/Cookies'' \<mapsto> File [83, 81],
         authPath @ ''/session/lockfile'' \<mapsto> File [],
         cachePath \<mapsto> Dir,
         cachePath @ ''/2.3000.0.html'' \<mapsto> File [60, 33])\<rparr>"

definition auth_locked :: "path \<Rightarrow> (js_error \<times> path list) option" where
  "auth_locked p =
     (if p = authPath
      then Some (Error ''EBUSY: resource busy or locked, unlink'', [authPath @ ''/session/Cookies''])
      else None)"

definition rm_succeeds :: "path \<Rightarrow> (js_error \<times> path list) option" where
  "rm_succeeds p = None"

definition protocol_error :: js_error where
  "protocol_error = Error ''Protocol error (Runtime.callFunctionOn): Target closed.''"

definition timeout_error :: js_error where
  "timeout_error = Error ''Navigation timeout of 30000 ms exceeded''"

definition group_chat_A :: chat where
  "group_chat_A = \<lparr>chat_id = ''A@g.us'', chat_name = ''Family'', isGroup = True\<rparr>"

definition private_chat :: chat where
  "private_chat = \<lparr>chat_id = ''4915100000@c.us'', chat_name = ''Sam'', isGroup = False\<rparr>"

text \<open>
  Messages seen in group A, a downloaded PNG of three bytes, a download whose text
  decodes to no bytes, and what a delivery attempt can observe.
\<close>

definition photo_msg :: message where
  "photo_msg =
     \<lparr>msg_id = ''true_A@g.us_3EB0'', msg_type = ''image'', msg_mimetype = Some ''image/png'',
      msg_body = Some ''look'', msg_hasMedia = True\<rparr>"

definition text_msg :: message where
  "text_msg =
     \<lparr>msg_id = ''true_A@g.us_3EB1'', msg_type = ''chat'', msg_mimetype = None,
      msg_body = Some ''hello'', msg_hasMedia = False\<rparr>"

definition voice_msg :: message where
  "voice_msg =
     \<lparr>msg_id = ''true_A@g.us_3EB2'', msg_type = ''ptt'', msg_mimetype = Some ''audio/ogg; codecs=opus'',
      msg_body = None, msg_hasMedia = True\<rparr>"

definition png_media :: media where
  "png_media = \<lparr>data = Some ''QUJD'', mimetype = Some ''image/png''\<rparr>"

definition empty_media :: media where
  "empty_media = \<lparr>data = Some ''='', mimetype = Some ''image/png''\<rparr>"

definition all_succeed :: attempt_env where
  "all_succeed =
     \<lparr>download_outcome = Inr (Some png_media), now = 1700000000000,
      send_outcome = None, forward_outcome = None\<rparr>"

definition send_fails :: attempt_env where
  "send_fails = all_succeed\<lparr>send_outcome := Some (Error ''Evaluation failed: t'')\<rparr>"

definition all_fail :: attempt_env where
  "all_fail =
     \<lparr>download_outcome = Inl (Error ''Protocol error: Target closed''), now = 1700000000000,
      send_outcome = Some (Error ''Evaluation failed: t''),
      forward_outcome = Some (Error ''Evaluation failed: t'')\<rparr>"

definition decodes_to_nothing :: attempt_env where
  "decodes_to_nothing = all_succeed\<lparr>download_outcome := Inr (Some empty_media)\<rparr>"

definition one_rule :: state where
  "one_rule = initial_state\<lparr>config_rules := [rule_A_to_BC, rule_X_to_Y]\<rparr>"

text \<open>The same rule added twice from the dashboard.\<close>

definition same_rule_twice :: state where
  "same_rule_twice = initial_state\<lparr>config_rules := [rule_A_to_B, rule_A_to_B]\<rparr>"

definition first_attempt_fails :: "nat \<Rightarrow> attempt_env" where
  "first_attempt_fails k = (if k = 0 then all_fail else all_succeed)"

section \<open>Properties of the string primitives\<close>

lemma startsWith_iff: "startsWith s p \<longleftrightarrow> (\<exists>r. s = p @ r)"
  unfolding startsWith_def
  by (metis append_eq_conv_conj append_take_drop_id)

lemma str_includes_iff: "str_includes s sub \<longleftrightarrow> (\<exists>p r. s = p @ sub @ r)"
proof (induction s)
  case Nil
  show ?case by auto
next
  case (Cons c cs)
  show ?case
  proof
    assume "str_includes (c # cs) sub"
    then consider "startsWith (c # cs) sub" | "str_includes cs sub"
      by auto
    then show "\<exists>p r. c # cs = p @ sub @ r"
    proof cases
      case 1
      then obtain r where "c # cs = sub @ r"
        by (auto simp: startsWith_iff)
      then have "c # cs = [] @ sub @ r"
        by simp
      then show ?thesis
        by blast
    next
      case 2
      with Cons.IH obtain p r where "cs = p @ sub @ r"
        by blast
      then have "c # cs = (c # p) @ sub @ r"
        by simp
      then show ?thesis
        by blast
    qed
  next
    assume "\<exists>p r. c # cs = p @ sub @ r"
    then obtain p r where pr: "c # cs = p @ sub @ r"
      by blast
    show "str_includes (c # cs) sub"
    proof (cases p)
      case Nil
      with pr have "startsWith (c # cs) sub"
        by (auto simp: startsWith_iff)
      then show ?thesis
        by simp
    next
      case (Cons a p')
      with pr have "cs = p' @ sub @ r"
        by simp
      with Cons.IH have "str_includes cs sub"
        by blast
      then show ?thesis
        by simp
    qed
  qed
qed

section \<open>Properties of the routing-table API\<close>

lemma splice1_length: "i < length xs \<Longrightarrow> length (splice1 i xs) = length xs - 1"
  by (simp add: splice1_def)

lemma splice1_nth_before: "j < i \<Longrightarrow> i < length xs \<Longrightarrow> splice1 i xs ! j = xs ! j"
  by (simp add: splice1_def nth_append)

lemma splice1_nth_after:
  "i \<le> j \<Longrightarrow> Suc j < length xs \<Longrightarrow> splice1 i xs ! j = xs ! Suc j"
  by (simp add: splice1_def nth_append min_def)

lemma splice1_append_last: "splice1 (length xs) (xs @ [x]) = xs"
  by (simp add: splice1_def)

text \<open>
  C9. Appending a rule and then deleting at the index where it was appended (the
  table's prior length) restores the table: the in-memory table and the persisted
  document both hold the pre-append content again, the response of the delete
  returns it, and apart from the file system the state is the one before the append.
\<close>

theorem append_then_delete_restores:
  "config_rules (fst (delete_rule (Some (int (length (config_rules s)))) (fst (post_rule r s))))
     = config_rules s
   \<and> fs (fst (delete_rule (Some (int (length (config_rules s)))) (fst (post_rule r s)))) CONFIG_FILE
     = Some (Document (config_rules s))
   \<and> snd (delete_rule (Some (int (length (config_rules s)))) (fst (post_rule r s)))
     = Success (config_rules s)
   \<and> (fst (delete_rule (Some (int (length (config_rules s)))) (fst (post_rule r s))))
        \<lparr>fs := fs s\<rparr> = s"
  by (simp add: post_rule_def delete_rule_def writeFileSync_def Let_def splice1_append_last)

text \<open>
  C10. A delete request whose index is \<open>NaN\<close> or outside \<open>[0, length)\<close> answers
  400 and leaves the whole state as it was, the persisted document included. For an
  index \<open>i\<close> inside the range, the rule at position \<open>i\<close> and no other is removed (the
  rules before keep their positions, the rules after move down by one, the table is
  one shorter), the updated table is written to \<open>config.json\<close> and returned, and
  nothing else in the state changes.
\<close>

theorem delete_rule_by_index:
  "(index = None \<or> (\<exists>i. index = Some i \<and> (i < 0 \<or> int (length (config_rules s)) \<le> i))
      \<longrightarrow> delete_rule index s = (s, Status_400 ''Invalid index''))
   \<and> (i < length (config_rules s) \<longrightarrow>
        length (config_rules (fst (delete_rule (Some (int i)) s))) = length (config_rules s) - 1
      \<and> (\<forall>j < i. config_rules (fst (delete_rule (Some (int i)) s)) ! j = config_rules s ! j)
      \<and> (\<forall>j. i \<le> j \<and> Suc j < length (config_rules s) \<longrightarrow>
             config_rules (fst (delete_rule (Some (int i)) s)) ! j = config_rules s ! Suc j)
      \<and> fs (fst (delete_rule (Some (int i)) s))
          = (fs s)(CONFIG_FILE \<mapsto> Document (config_rules (fst (delete_rule (Some (int i)) s))))
      \<and> snd (delete_rule (Some (int i)) s)
          = Success (config_rules (fst (delete_rule (Some (int i)) s)))
      \<and> (fst (delete_rule (Some (int i)) s))\<lparr>config_rules := config_rules s, fs := fs s\<rparr> = s)"
proof (intro conjI impI)
  assume "index = None \<or> (\<exists>i. index = Some i \<and> (i < 0 \<or> int (length (config_rules s)) \<le> i))"
  then show "delete_rule index s = (s, Status_400 ''Invalid index'')"
    by (auto simp: delete_rule_def)
next
  assume i: "i < length (config_rules s)"
  have d: "delete_rule (Some (int i)) s =
             (s\<lparr>config_rules := splice1 i (config_rules s),
                fs := (fs s)(CONFIG_FILE \<mapsto> Document (splice1 i (config_rules s)))\<rparr>,
              Success (splice1 i (config_rules s)))"
    using i by (simp add: delete_rule_def writeFileSync_def Let_def)
  show "length (config_rules (fst (delete_rule (Some (int i)) s))) = length (config_rules s) - 1"
    using i by (simp add: d splice1_length)
  show "\<forall>j < i. config_rules (fst (delete_rule (Some (int i)) s)) ! j = config_rules s ! j"
    using i by (simp add: d splice1_nth_before)
  show "\<forall>j. i \<le> j \<and> Suc j < length (config_rules s) \<longrightarrow>
          config_rules (fst (delete_rule (Some (int i)) s)) ! j = config_rules s ! Suc j"
    by (simp add: d splice1_nth_after)
  show "fs (fst (delete_rule (Some (int i)) s))
          = (fs s)(CONFIG_FILE \<mapsto> Document (config_rules (fst (delete_rule (Some (int i)) s))))"
    by (simp add: d)
  show "snd (delete_rule (Some (int i)) s)
          = Success (config_rules (fst (delete_rule (Some (int i)) s)))"
    by (simp add: d)
  show "(fst (delete_rule (Some (int i)) s))\<lparr>config_rules := config_rules s, fs := fs s\<rparr> = s"
    by (simp add: d)
qed

theorem delete_rule_by_index_witness:
  "delete_rule (Some 3) three_rules = (three_rules, Status_400 ''Invalid index'')
   \<and> delete_rule (Some (- 1)) three_rules = (three_rules, Status_400 ''Invalid index'')
   \<and> delete_rule None three_rules = (three_rules, Status_400 ''Invalid index'')
   \<and> (1 :: nat) < length (config_rules three_rules)
   \<and> config_rules (fst (delete_rule (Some 1) three_rules)) = [rule_A_to_B, rule_X_to_Y]
   \<and> fs (fst (delete_rule (Some 1) three_rules)) CONFIG_FILE
       = Some (Document [rule_A_to_B, rule_X_to_Y])
   \<and> snd (delete_rule (Some 1) three_rules) = Success [rule_A_to_B, rule_X_to_Y]"
  using delete_rule_by_index [of "Some 3" three_rules 1]
        delete_rule_by_index [of "Some (- 1)" three_rules 1]
        delete_rule_by_index [of None three_rules 1]
  by (simp add: three_rules_def initial_state_def delete_rule_def writeFileSync_def splice1_def)

section \<open>Properties of the classifier and of the extension mapping\<close>

text \<open>
  C4. The classifier sets \<open>isMedia\<close> exactly when the declared type is image, video or
  gif, or the declared type is document and the MIME type begins with \<open>image/\<close> or
  \<open>video/\<close> (an absent MIME type is the empty string and begins with neither). A
  document with MIME type \<open>image/png\<close> is media; a document with MIME type
  \<open>application/pdf\<close> is not.
\<close>

theorem classify_isMedia:
  "(fst (classify msg) \<longleftrightarrow>
      msg_type msg = ''image'' \<or> msg_type msg = ''video'' \<or> msg_type msg = ''gif'' \<or>
      (msg_type msg = ''document'' \<and>
         (\<exists>m r. msg_mimetype msg = Some m \<and> (m = ''image/'' @ r \<or> m = ''video/'' @ r))))
   \<and> fst (classify (msg\<lparr>msg_type := ''document'', msg_mimetype := Some ''image/png''\<rparr>))
   \<and> \<not> fst (classify (msg\<lparr>msg_type := ''document'', msg_mimetype := Some ''application/pdf''\<rparr>))"
proof (intro conjI)
  show "fst (classify msg) \<longleftrightarrow>
      msg_type msg = ''image'' \<or> msg_type msg = ''video'' \<or> msg_type msg = ''gif'' \<or>
      (msg_type msg = ''document'' \<and>
         (\<exists>m r. msg_mimetype msg = Some m \<and> (m = ''image/'' @ r \<or> m = ''video/'' @ r)))"
    by (cases "msg_mimetype msg")
       (auto simp: classify_def or_default_def Let_def startsWith_iff)
  show "fst (classify (msg\<lparr>msg_type := ''document'', msg_mimetype := Some ''image/png''\<rparr>))"
    by (simp add: classify_def or_default_def startsWith_def)
  show "\<not> fst (classify (msg\<lparr>msg_type := ''document'', msg_mimetype := Some ''application/pdf''\<rparr>))"
    by (simp add: classify_def or_default_def startsWith_def)
qed

lemma classify_mime: "snd (classify msg) = or_default (msg_mimetype msg) []"
  by (simp add: classify_def Let_def)

text \<open>
  What the extension mapping does on every input: a key of the table gives the
  table's extension; a key that names an inherited member gives that member; otherwise
  the MIME string must contain a \<open>/\<close>, and the extension is the text between the first
  \<open>/\<close> and the next \<open>/\<close> or \<open>;\<close>, or \<open>bin\<close> when that text is empty.
\<close>

lemma ext_of_table:
  "map_of mimeMap (split_0 CHR '';'' mime) = Some e \<Longrightarrow> ext_of mime = Inr (Str e)"
  by (simp add: ext_of_def mimeMap_get_def)

lemma takeWhile_twice:
  "takeWhile (\<lambda>x. x \<noteq> a) (takeWhile (\<lambda>x. x \<noteq> b) xs)
     = takeWhile (\<lambda>x. x \<noteq> a \<and> x \<noteq> b) xs"
  by (induction xs) auto

lemma ext_of_subtype:
  assumes "mimeMap_get (split_0 CHR '';'' mime) = None" and "CHR ''/'' \<in> set mime"
  shows "ext_of mime =
     Inr (Str (let e = takeWhile (\<lambda>x. x \<noteq> CHR '';'' \<and> x \<noteq> CHR ''/'')
                                (tl (dropWhile (\<lambda>x. x \<noteq> CHR ''/'') mime))
               in if e = [] then ''bin'' else e))"
  using assms by (simp add: ext_of_def split_1_def split_0_def Let_def takeWhile_twice)

lemma ext_of_inherited:
  "map_of mimeMap (split_0 CHR '';'' mime) = None \<Longrightarrow>
   split_0 CHR '';'' mime \<in> set object_prototype_members \<Longrightarrow>
   ext_of mime = Inr (Inherited (split_0 CHR '';'' mime))"
  by (simp add: ext_of_def mimeMap_get_def)

lemma ext_of_no_slash:
  "mimeMap_get (split_0 CHR '';'' mime) = None \<Longrightarrow> CHR ''/'' \<notin> set mime \<Longrightarrow>
   ext_of mime = Inl (TypeError reading_split_of_undefined)"
  by (simp add: ext_of_def split_1_def)

text \<open>
  C8, at a MIME string without a slash. The table and the subtype fallback work as
  the claim says, and \<open>bin\<close> is reached when the subtype is empty (\<open>video/\<close>). But a
  MIME string of a single word such as \<open>binary\<close> is in neither case: the table
  misses, \<open>mime.split('/')[1]\<close> is \<open>undefined\<close>, and the mapping throws instead of
  giving \<open>bin\<close>.
\<close>

theorem ext_of_binary_throws:
  "ext_of ''binary'' = Inl (TypeError reading_split_of_undefined)
   \<and> ext_of ''video/mp4'' = Inr (Str ''mp4'')
   \<and> ext_of ''application/pdf'' = Inr (Str ''pdf'')
   \<and> ext_of ''video/'' = Inr (Str ''bin'')"
  by (simp add: ext_of_def mimeMap_get_def mimeMap_def object_prototype_members_def
                split_0_def split_1_def)

section \<open>Properties of the session lifecycle\<close>

lemmas state_ops =
  emit_def engine_def setTimeout_def updateStatus_def existsSync_def mkdirSync_def
  writeFileSync_def statSync_size_def unlinkSync_def readFile_def

lemma initializeClient_corrupted:
  assumes "str_includes (err_message e) ''Execution context was destroyed'' \<or>
           str_includes (err_message e) ''Protocol error'' \<or>
           str_includes (err_message e) ''Evaluation failed''"
  shows "calls (initializeClient (Some e) d s) = calls s @ [Initialize, Destroy]"
    and "timers (initializeClient (Some e) d s) = timers s @ [(SessionCleanup, 1000)]"
    and "fs (initializeClient (Some e) d s) = fs s"
    and "currentStatus (initializeClient (Some e) d s) = ''Init Error''"
    and "sink (initializeClient (Some e) d s)
           = sink s @ [Status ''Initializing...'',
                       Log ''Launching WhatsApp Engine... (Please wait for Chrome Window)'',
                       Status ''Init Error'',
                       Log ''CRITICAL ERROR: Session corrupted. Performing auto-cleanup...'']"
  using assms
  by (auto simp: initializeClient_def state_ops Let_def or_default_def)

lemma initializeClient_other_error:
  assumes "\<not> (str_includes (err_message e) ''Execution context was destroyed'' \<or>
              str_includes (err_message e) ''Protocol error'' \<or>
              str_includes (err_message e) ''Evaluation failed'')"
  shows "calls (initializeClient (Some e) d s) = calls s @ [Initialize]"
    and "timers (initializeClient (Some e) d s) = timers s @ [(InitializeClient, 5000)]"
    and "fs (initializeClient (Some e) d s) = fs s"
    and "currentStatus (initializeClient (Some e) d s) = ''Init Error''"
    and "sink (initializeClient (Some e) d s)
           = sink s @ [Status ''Initializing...'',
                       Log ''Launching WhatsApp Engine... (Please wait for Chrome Window)'',
                       Status ''Init Error'',
                       Log ''Initialization failed. Retrying in 5s...'']"
  using assms
  by (auto simp: initializeClient_def state_ops Let_def or_default_def)

lemma sessionCleanup_timers:
  "timers (sessionCleanup rm s) = timers s @ [(InitializeClient, 3000)]"
  by (simp add: sessionCleanup_def rmSync_def state_ops Let_def
           split: option.splits prod.splits)

lemma sessionCleanup_calls: "calls (sessionCleanup rm s) = calls s"
  by (simp add: sessionCleanup_def rmSync_def state_ops Let_def
           split: option.splits prod.splits)

text \<open>The two session directories are apart: no path is at or below both.\<close>

lemma auth_cache_apart: "within authPath q \<Longrightarrow> \<not> within cachePath q"
  by (auto simp: within_def startsWith_iff authPath_def cachePath_def)

lemma within_self: "within p p"
  by (simp add: within_def)

lemma cache_outside_auth: "\<not> within authPath cachePath"
  using auth_cache_apart [of cachePath] within_self [of cachePath] by blast

lemma auth_outside_cache: "\<not> within cachePath authPath"
  using auth_cache_apart [of authPath] within_self [of authPath] by blast

lemmas cleanup_unfold =
  sessionCleanup_def rmSync_def state_ops Let_def within_self cache_outside_auth
  auth_outside_cache

lemma sessionCleanup_sink:
  "sink (sessionCleanup rm s)
     = sink s @
       [Log (if (existsSync s authPath \<and> rm authPath \<noteq> None) \<or>
                (existsSync s cachePath \<and> rm cachePath \<noteq> None)
             then ''Auto-cleanup failed. Please run fix_connection.bat manually.''
             else ''Session reset. Restarting in 3s...'')]"
  by (auto simp: cleanup_unfold split: option.splits)

lemma sessionCleanup_auth_tree:
  assumes "existsSync s authPath" and "rm authPath = None" and "within authPath q"
  shows "fs (sessionCleanup rm s) q = None"
  using assms auth_cache_apart [of q]
  by (auto simp: cleanup_unfold split: option.splits)

lemma sessionCleanup_cache_tree:
  assumes "existsSync s authPath \<longrightarrow> rm authPath = None"
    and "existsSync s cachePath" and "rm cachePath = None" and "within cachePath q"
  shows "fs (sessionCleanup rm s) q = None"
  using assms
  by (auto simp: cleanup_unfold split: option.splits)

lemma sessionCleanup_elsewhere:
  assumes "\<not> within authPath q" and "\<not> within cachePath q"
  shows "fs (sessionCleanup rm s) q = fs s q"
  using assms
  by (auto simp: cleanup_unfold split: option.splits)

lemma sessionCleanup_auth_throws:
  assumes "existsSync s authPath" and "rm authPath \<noteq> None" and "within cachePath q"
  shows "fs (sessionCleanup rm s) q = fs s q"
  using assms auth_cache_apart [of q]
  by (auto simp: cleanup_unfold split: option.splits)

lemma sessionCleanup_auth_gone:
  assumes "existsSync s authPath \<longrightarrow> rm authPath = None"
  shows "\<not> existsSync (sessionCleanup rm s) authPath"
  using assms
  by (auto simp: cleanup_unfold split: option.splits)

lemma sessionCleanup_cache_gone:
  assumes "existsSync s authPath \<longrightarrow> rm authPath = None"
    and "existsSync s cachePath \<longrightarrow> rm cachePath = None"
  shows "\<not> existsSync (sessionCleanup rm s) cachePath"
  using assms
  by (auto simp: cleanup_unfold split: option.splits)

lemma sessionCleanup_absent:
  "\<not> existsSync s authPath \<Longrightarrow> \<not> existsSync s cachePath \<Longrightarrow>
   fs (sessionCleanup rm s) = fs s"
  by (auto simp: cleanup_unfold split: option.splits)

text \<open>
  C3, as amended. When initialization throws an error whose message contains one of
  the three corruption signatures, the controller reports the corruption, calls
  \<open>destroy\<close> (the outcome of that call changes nothing), touches no file yet, and
  schedules the cleanup 1000 ms later; it does not schedule initialization itself.
  The cleanup never raises and always schedules initialization 3000 ms later. When the
  auth directory exists and its removal does not throw, the directory and everything
  below it are gone afterwards; the same holds for the cache directory, provided the
  removal of the auth directory did not throw. Nothing outside the two directories is
  touched, and when both are absent the file system stays as it is. The cleanup emits
  exactly one line: the failure notice when a removal threw, the reset notice
  otherwise. When the removal of an existing auth directory throws, the cache
  directory is not attempted: it and everything below it stay as they were. Any other
  initialization error is reported and schedules initialization 5000 ms later.
\<close>

theorem initializeClient_recovery:
  "((str_includes (err_message e) ''Execution context was destroyed'' \<or>
     str_includes (err_message e) ''Protocol error'' \<or>
     str_includes (err_message e) ''Evaluation failed'') \<longrightarrow>
       calls (initializeClient (Some e) d s) = calls s @ [Initialize, Destroy]
     \<and> initializeClient (Some e) d s = initializeClient (Some e) None s
     \<and> timers (initializeClient (Some e) d s) = timers s @ [(SessionCleanup, 1000)]
     \<and> fs (initializeClient (Some e) d s) = fs s
     \<and> sink (initializeClient (Some e) d s)
         = sink s @ [Status ''Initializing...'',
                     Log ''Launching WhatsApp Engine... (Please wait for Chrome Window)'',
                     Status ''Init Error'',
                     Log ''CRITICAL ERROR: Session corrupted. Performing auto-cleanup...''])
   \<and> (\<not> (str_includes (err_message e) ''Execution context was destroyed'' \<or>
          str_includes (err_message e) ''Protocol error'' \<or>
          str_includes (err_message e) ''Evaluation failed'') \<longrightarrow>
       calls (initializeClient (Some e) d s) = calls s @ [Initialize]
     \<and> timers (initializeClient (Some e) d s) = timers s @ [(InitializeClient, 5000)]
     \<and> fs (initializeClient (Some e) d s) = fs s
     \<and> sink (initializeClient (Some e) d s)
         = sink s @ [Status ''Initializing...'',
                     Log ''Launching WhatsApp Engine... (Please wait for Chrome Window)'',
                     Status ''Init Error'',
                     Log ''Initialization failed. Retrying in 5s...''])
   \<and> timers (sessionCleanup rm s) = timers s @ [(InitializeClient, 3000)]
   \<and> calls (sessionCleanup rm s) = calls s
   \<and> sink (sessionCleanup rm s)
       = sink s @
         [Log (if (existsSync s authPath \<and> rm authPath \<noteq> None) \<or>
                  (existsSync s cachePath \<and> rm cachePath \<noteq> None)
               then ''Auto-cleanup failed. Please run fix_connection.bat manually.''
               else ''Session reset. Restarting in 3s...'')]
   \<and> (existsSync s authPath \<and> rm authPath = None \<longrightarrow>
        (\<forall>q. within authPath q \<longrightarrow> fs (sessionCleanup rm s) q = None))
   \<and> ((existsSync s authPath \<longrightarrow> rm authPath = None) \<and>
       existsSync s cachePath \<and> rm cachePath = None \<longrightarrow>
        (\<forall>q. within cachePath q \<longrightarrow> fs (sessionCleanup rm s) q = None))
   \<and> ((existsSync s authPath \<longrightarrow> rm authPath = None) \<longrightarrow>
        \<not> existsSync (sessionCleanup rm s) authPath)
   \<and> ((existsSync s authPath \<longrightarrow> rm authPath = None) \<and>
       (existsSync s cachePath \<longrightarrow> rm cachePath = None) \<longrightarrow>
        \<not> existsSync (sessionCleanup rm s) cachePath)
   \<and> (\<forall>q. \<not> within authPath q \<and> \<not> within cachePath q \<longrightarrow>
          fs (sessionCleanup rm s) q = fs s q)
   \<and> (\<not> existsSync s authPath \<and> \<not> existsSync s cachePath \<longrightarrow>
        fs (sessionCleanup rm s) = fs s)
   \<and> (existsSync s authPath \<and> rm authPath \<noteq> None \<longrightarrow>
        (\<forall>q. within cachePath q \<longrightarrow> fs (sessionCleanup rm s) q = fs s q))"
proof (intro conjI impI allI)
  assume sig: "str_includes (err_message e) ''Execution context was destroyed'' \<or>
               str_includes (err_message e) ''Protocol error'' \<or>
               str_includes (err_message e) ''Evaluation failed''"
  show "calls (initializeClient (Some e) d s) = calls s @ [Initialize, Destroy]"
    by (rule initializeClient_corrupted [OF sig])
  show "initializeClient (Some e) d s = initializeClient (Some e) None s"
    by (simp add: initializeClient_def)
  show "timers (initializeClient (Some e) d s) = timers s @ [(SessionCleanup, 1000)]"
    by (rule initializeClient_corrupted [OF sig])
  show "fs (initializeClient (Some e) d s) = fs s"
    by (rule initializeClient_corrupted [OF sig])
  show "sink (initializeClient (Some e) d s)
         = sink s @ [Status ''Initializing...'',
                     Log ''Launching WhatsApp Engine... (Please wait for Chrome Window)'',
                     Status ''Init Error'',
                     Log ''CRITICAL ERROR: Session corrupted. Performing auto-cleanup...'']"
    by (rule initializeClient_corrupted [OF sig])
next
  assume other: "\<not> (str_includes (err_message e) ''Execution context was destroyed'' \<or>
                     str_includes (err_message e) ''Protocol error'' \<or>
                     str_includes (err_message e) ''Evaluation failed'')"
  show "calls (initializeClient (Some e) d s) = calls s @ [Initialize]"
    by (rule initializeClient_other_error [OF other])
  show "timers (initializeClient (Some e) d s) = timers s @ [(InitializeClient, 5000)]"
    by (rule initializeClient_other_error [OF other])
  show "fs (initializeClient (Some e) d s) = fs s"
    by (rule initializeClient_other_error [OF other])
  show "sink (initializeClient (Some e) d s)
         = sink s @ [Status ''Initializing...'',
                     Log ''Launching WhatsApp Engine... (Please wait for Chrome Window)'',
                     Status ''Init Error'',
                     Log ''Initialization failed. Retrying in 5s...'']"
    by (rule initializeClient_other_error [OF other])
next
  show "timers (sessionCleanup rm s) = timers s @ [(InitializeClient, 3000)]"
    by (rule sessionCleanup_timers)
  show "calls (sessionCleanup rm s) = calls s"
    by (rule sessionCleanup_calls)
  show "sink (sessionCleanup rm s)
       = sink s @
         [Log (if (existsSync s authPath \<and> rm authPath \<noteq> None) \<or>
                  (existsSync s cachePath \<and> rm cachePath \<noteq> None)
               then ''Auto-cleanup failed. Please run fix_connection.bat manually.''
               else ''Session reset. Restarting in 3s...'')]"
    by (rule sessionCleanup_sink)
next
  fix q
  assume "existsSync s authPath \<and> rm authPath = None" and "within authPath q"
  then show "fs (sessionCleanup rm s) q = None"
    by (simp add: sessionCleanup_auth_tree)
next
  fix q
  assume "(existsSync s authPath \<longrightarrow> rm authPath = None) \<and>
          existsSync s cachePath \<and> rm cachePath = None" and "within cachePath q"
  then show "fs (sessionCleanup rm s) q = None"
    by (simp add: sessionCleanup_cache_tree)
next
  assume "existsSync s authPath \<longrightarrow> rm authPath = None"
  then show "\<not> existsSync (sessionCleanup rm s) authPath"
    by (rule sessionCleanup_auth_gone)
next
  assume "(existsSync s authPath \<longrightarrow> rm authPath = None) \<and>
          (existsSync s cachePath \<longrightarrow> rm cachePath = None)"
  then show "\<not> existsSync (sessionCleanup rm s) cachePath"
    by (simp add: sessionCleanup_cache_gone)
next
  fix q
  assume "\<not> within authPath q \<and> \<not> within cachePath q"
  then show "fs (sessionCleanup rm s) q = fs s q"
    by (simp add: sessionCleanup_elsewhere)
next
  assume "\<not> existsSync s authPath \<and> \<not> existsSync s cachePath"
  then show "fs (sessionCleanup rm s) = fs s"
    by (simp add: sessionCleanup_absent)
next
  fix q
  assume "existsSync s authPath \<and> rm authPath \<noteq> None" and "within cachePath q"
  then show "fs (sessionCleanup rm s) q = fs s q"
    by (simp add: sessionCleanup_auth_throws)
qed

theorem initializeClient_recovery_witness:
  "str_includes (err_message protocol_error) ''Protocol error''
   \<and> calls (initializeClient (Some protocol_error) (Some (Error ''Session closed'')) session_on_disk)
       = [Initialize, Destroy]
   \<and> timers (initializeClient (Some protocol_error) (Some (Error ''Session closed'')) session_on_disk)
       = [(SessionCleanup, 1000)]
   \<and> existsSync session_on_disk authPath \<and> existsSync session_on_disk cachePath
   \<and> rm_succeeds authPath = None \<and> rm_succeeds cachePath = None
   \<and> within authPath (authPath @ ''/session/Cookies'')
   \<and> within cachePath (cachePath @ ''/2.3000.0.html'')
   \<and> \<not> within authPath CONFIG_FILE \<and> \<not> within cachePath CONFIG_FILE
   \<and> \<not> existsSync (sessionCleanup rm_succeeds session_on_disk) authPath
   \<and> \<not> existsSync (sessionCleanup rm_succeeds session_on_disk) cachePath
   \<and> fs (sessionCleanup rm_succeeds session_on_disk) (authPath @ ''/session/Cookies'') = None
   \<and> fs (sessionCleanup rm_succeeds session_on_disk) (cachePath @ ''/2.3000.0.html'') = None
   \<and> fs (sessionCleanup rm_succeeds session_on_disk) CONFIG_FILE = Some (Document [])
   \<and> sink (sessionCleanup rm_succeeds session_on_disk)
       = [Log ''Session reset. Restarting in 3s...'']
   \<and> timers (sessionCleanup rm_succeeds session_on_disk) = [(InitializeClient, 3000)]
   \<and> \<not> existsSync initial_state authPath \<and> \<not> existsSync initial_state cachePath
   \<and> fs (sessionCleanup rm_succeeds initial_state) = fs initial_state
   \<and> auth_locked authPath \<noteq> None
   \<and> sink (sessionCleanup auth_locked session_on_disk)
       = [Log ''Auto-cleanup failed. Please run fix_connection.bat manually.'']
   \<and> fs (sessionCleanup auth_locked session_on_disk) (cachePath @ ''/2.3000.0.html'')
       = Some (File [60, 33])
   \<and> \<not> str_includes (err_message timeout_error) ''Execution context was destroyed''
   \<and> \<not> str_includes (err_message timeout_error) ''Protocol error''
   \<and> \<not> str_includes (err_message timeout_error) ''Evaluation failed''
   \<and> timers (initializeClient (Some timeout_error) None session_on_disk)
       = [(InitializeClient, 5000)]"
  using initializeClient_recovery
          [of protocol_error "Some (Error ''Session closed'')" session_on_disk rm_succeeds]
        initializeClient_recovery [of timeout_error None session_on_disk auth_locked]
        initializeClient_recovery [of timeout_error None initial_state rm_succeeds]
  by (simp add: protocol_error_def timeout_error_def session_on_disk_def initial_state_def
                rm_succeeds_def auth_locked_def initializeClient_def sessionCleanup_def
                rmSync_def state_ops Let_def or_default_def within_def startsWith_def
                authPath_def cachePath_def CONFIG_FILE_def publicDir_def)

text \<open>
  C3, as stated, fails when an existing auth directory cannot be removed. The
  initialization error carries the signature \<open>Protocol error\<close> and the cleanup is
  scheduled; the removal of the auth directory throws after one file is gone;
  removing the cache directory would succeed, yet after the cleanup the cache
  directory and the entry below it are still there, the failure notice has been
  emitted, and the next initialization is scheduled: the deletion of the cache
  directory was not attempted.
\<close>

theorem cleanup_skips_cache_counterexample:
  "str_includes (err_message protocol_error) ''Protocol error''
   \<and> timers (initializeClient (Some protocol_error) None session_on_disk)
       = [(SessionCleanup, 1000)]
   \<and> auth_locked cachePath = None
   \<and> fs (sessionCleanup auth_locked
            (initializeClient (Some protocol_error) None session_on_disk))
          (authPath @ ''/session/Cookies'') = None
   \<and> existsSync (sessionCleanup auth_locked
                   (initializeClient (Some protocol_error) None session_on_disk)) authPath
   \<and> existsSync (sessionCleanup auth_locked
                   (initializeClient (Some protocol_error) None session_on_disk)) cachePath
   \<and> fs (sessionCleanup auth_locked
            (initializeClient (Some protocol_error) None session_on_disk))
          (cachePath @ ''/2.3000.0.html'') = Some (File [60, 33])
   \<and> last (sink (sessionCleanup auth_locked
                    (initializeClient (Some protocol_error) None session_on_disk)))
       = Log ''Auto-cleanup failed. Please run fix_connection.bat manually.''
   \<and> timers (sessionCleanup auth_locked
               (initializeClient (Some protocol_error) None session_on_disk))
       = [(SessionCleanup, 1000), (InitializeClient, 3000)]"
  by (simp add: protocol_error_def session_on_disk_def initial_state_def auth_locked_def
                initializeClient_def sessionCleanup_def rmSync_def state_ops Let_def
                or_default_def within_def startsWith_def authPath_def cachePath_def
                CONFIG_FILE_def publicDir_def)

section \<open>Properties of the group directory refresh\<close>

lemma fetchGroups_calls: "calls (fetchGroups r s) = calls s @ [GetChats]"
  by (simp add: fetchGroups_def Let_def state_ops split: sum.splits)

lemma fetchGroups_found:
  assumes "filter isGroup chats \<noteq> []"
  shows "availableGroups (fetchGroups (Inr chats) s)
           = map (\<lambda>chat. \<lparr>group_id = chat_id chat, group_name = chat_name chat\<rparr>)
                 (filter isGroup chats)"
    and "Groups (map (\<lambda>chat. \<lparr>group_id = chat_id chat, group_name = chat_name chat\<rparr>)
                     (filter isGroup chats)) \<in> set (sink (fetchGroups (Inr chats) s))"
    and "timers (fetchGroups (Inr chats) s)
           = timers s @ (if attempts s + 1 < 5 then [(FetchGroups, 5000)] else [])"
  using assms by (simp_all add: fetchGroups_def Let_def state_ops)

lemma fetchGroups_none_found:
  assumes "filter isGroup chats = []"
  shows "availableGroups (fetchGroups (Inr chats) s) = availableGroups s"
    and "timers (fetchGroups (Inr chats) s)
           = timers s @ (if attempts s + 1 < 20 then [(FetchGroups, 5000)] else [])"
  using assms by (simp_all add: fetchGroups_def Let_def state_ops)

lemma fetchGroups_failed:
  shows "availableGroups (fetchGroups (Inl e) s) = availableGroups s"
    and "timers (fetchGroups (Inl e) s)
           = timers s @ (if attempts s + 1 < 20 then [(FetchGroups, 5000)] else [])"
  by (simp_all add: fetchGroups_def Let_def state_ops)

lemma rescheduled_iff:
  "rescheduled s (fetchGroups r s) \<longleftrightarrow>
     attempts s + 1 < (if found_groups r then 5 else 20)"
  by (cases r)
     (auto simp: rescheduled_def found_groups_def fetchGroups_def Let_def state_ops)

lemma not_rescheduled_timers:
  "\<not> rescheduled s (fetchGroups r s) \<Longrightarrow> timers (fetchGroups r s) = timers s"
  by (cases r)
     (auto simp: rescheduled_def fetchGroups_def Let_def state_ops split: if_splits)

lemma fetch_loop_unfold:
  "fetch_loop getChats s =
     (if rescheduled s (fetchGroups (getChats (attempts s)) s)
      then fetch_loop getChats ((fetchGroups (getChats (attempts s)) s)\<lparr>timers := timers s\<rparr>)
      else fetchGroups (getChats (attempts s)) s)"
  by (subst fetch_loop.simps) (simp add: Let_def)

lemma fetch_loop_attempts_ge: "attempts s < attempts (fetch_loop getChats s)"
proof (induction getChats s rule: fetch_loop.induct)
  case (1 getChats s)
  show ?case
  proof (cases "rescheduled s (fetchGroups (getChats (attempts s)) s)")
    case True
    from "1.IH" [OF refl True] show ?thesis
      using True by (subst fetch_loop_unfold) (simp add: fetchGroups_attempts)
  next
    case False
    then show ?thesis
      by (subst fetch_loop_unfold) (simp add: fetchGroups_attempts)
  qed
qed

lemma fetch_loop_attempts_le:
  "attempts s < 20 \<Longrightarrow> attempts (fetch_loop getChats s) \<le> 20"
proof (induction getChats s rule: fetch_loop.induct)
  case (1 getChats s)
  show ?case
  proof (cases "rescheduled s (fetchGroups (getChats (attempts s)) s)")
    case True
    then have "attempts s + 1 < 20"
      by (rule fetchGroups_rescheduled)
    then have "attempts ((fetchGroups (getChats (attempts s)) s)\<lparr>timers := timers s\<rparr>) < 20"
      by (simp add: fetchGroups_attempts)
    from "1.IH" [OF refl True this] show ?thesis
      using True by (subst fetch_loop_unfold) simp
  next
    case False
    then show ?thesis
      using "1.prems" by (subst fetch_loop_unfold) (simp add: fetchGroups_attempts)
  qed
qed

lemma fetch_loop_timers: "timers (fetch_loop getChats s) = timers s"
proof (induction getChats s rule: fetch_loop.induct)
  case (1 getChats s)
  show ?case
  proof (cases "rescheduled s (fetchGroups (getChats (attempts s)) s)")
    case True
    from "1.IH" [OF refl True] show ?thesis
      using True by (subst fetch_loop_unfold) simp
  next
    case False
    then show ?thesis
      by (subst fetch_loop_unfold) (simp add: not_rescheduled_timers)
  qed
qed

lemma fetch_loop_calls:
  "calls (fetch_loop getChats s)
     = calls s @ replicate (attempts (fetch_loop getChats s) - attempts s) GetChats"
proof (induction getChats s rule: fetch_loop.induct)
  case (1 getChats s)
  let ?s' = "fetchGroups (getChats (attempts s)) s"
  show ?case
  proof (cases "rescheduled s ?s'")
    case True
    have less: "attempts s + 1 < attempts (fetch_loop getChats (?s'\<lparr>timers := timers s\<rparr>))"
      using fetch_loop_attempts_ge [of "?s'\<lparr>timers := timers s\<rparr>" getChats]
      by (simp add: fetchGroups_attempts)
    have unf: "fetch_loop getChats s = fetch_loop getChats (?s'\<lparr>timers := timers s\<rparr>)"
      using True by (subst fetch_loop_unfold) simp
    have "calls (fetch_loop getChats s)
            = (calls s @ [GetChats])
              @ replicate (attempts (fetch_loop getChats s) - (attempts s + 1)) GetChats"
      using "1.IH" [OF refl True] by (simp add: unf fetchGroups_calls fetchGroups_attempts)
    also have "\<dots> = calls s @ replicate (Suc (attempts (fetch_loop getChats s) - (attempts s + 1))) GetChats"
      by simp
    also have "Suc (attempts (fetch_loop getChats s) - (attempts s + 1))
                 = attempts (fetch_loop getChats s) - attempts s"
      using less unf by simp
    finally show ?thesis .
  next
    case False
    then show ?thesis
      by (subst (1 2) fetch_loop_unfold) (simp add: fetchGroups_calls fetchGroups_attempts)
  qed
qed

lemma fetch_loop_all_found:
  "\<forall>k. found_groups (getChats k) \<Longrightarrow> attempts s < 5 \<Longrightarrow>
   attempts (fetch_loop getChats s) = 5"
proof (induction getChats s rule: fetch_loop.induct)
  case (1 getChats s)
  let ?s' = "fetchGroups (getChats (attempts s)) s"
  have resch: "rescheduled s ?s' \<longleftrightarrow> attempts s + 1 < 5"
    using "1.prems"(1) by (simp add: rescheduled_iff)
  show ?case
  proof (cases "attempts s + 1 < 5")
    case True
    with resch have r: "rescheduled s ?s'"
      by simp
    have "attempts (?s'\<lparr>timers := timers s\<rparr>) < 5"
      using True by (simp add: fetchGroups_attempts)
    from "1.IH" [OF refl r "1.prems"(1) this] show ?thesis
      using r by (subst fetch_loop_unfold) simp
  next
    case False
    with resch have "\<not> rescheduled s ?s'"
      by simp
    then show ?thesis
      using False "1.prems"(2) by (subst fetch_loop_unfold) (simp add: fetchGroups_attempts)
  qed
qed

lemma fetch_loop_none_found:
  "\<forall>k. \<not> found_groups (getChats k) \<Longrightarrow> attempts s < 20 \<Longrightarrow>
   attempts (fetch_loop getChats s) = 20"
proof (induction getChats s rule: fetch_loop.induct)
  case (1 getChats s)
  let ?s' = "fetchGroups (getChats (attempts s)) s"
  have resch: "rescheduled s ?s' \<longleftrightarrow> attempts s + 1 < 20"
    using "1.prems"(1) by (simp add: rescheduled_iff)
  show ?case
  proof (cases "attempts s + 1 < 20")
    case True
    with resch have r: "rescheduled s ?s'"
      by simp
    have "attempts (?s'\<lparr>timers := timers s\<rparr>) < 20"
      using True by (simp add: fetchGroups_attempts)
    from "1.IH" [OF refl r "1.prems"(1) this] show ?thesis
      using r by (subst fetch_loop_unfold) simp
  next
    case False
    with resch have "\<not> rescheduled s ?s'"
      by simp
    then show ?thesis
      using False "1.prems"(2) by (subst fetch_loop_unfold) (simp add: fetchGroups_attempts)
  qed
qed

lemma fetch_loop_gives_up:
  "\<forall>k. \<exists>chats. getChats k = Inr chats \<and> filter isGroup chats = [] \<Longrightarrow> attempts s < 20 \<Longrightarrow>
   last (sink (fetch_loop getChats s)) = give_up_notice"
proof (induction getChats s rule: fetch_loop.induct)
  case (1 getChats s)
  let ?s' = "fetchGroups (getChats (attempts s)) s"
  obtain chats where chats: "getChats (attempts s) = Inr chats" "filter isGroup chats = []"
    using "1.prems"(1) by blast
  then have nf: "\<not> found_groups (getChats (attempts s))"
    by (simp add: found_groups_def)
  have resch: "rescheduled s ?s' \<longleftrightarrow> attempts s + 1 < 20"
    using nf by (simp add: rescheduled_iff)
  show ?case
  proof (cases "attempts s + 1 < 20")
    case True
    with resch have r: "rescheduled s ?s'"
      by simp
    have "attempts (?s'\<lparr>timers := timers s\<rparr>) < 20"
      using True by (simp add: fetchGroups_attempts)
    from "1.IH" [OF refl r "1.prems"(1) this] show ?thesis
      using r by (subst fetch_loop_unfold) simp
  next
    case False
    with resch have "\<not> rescheduled s ?s'"
      by simp
    moreover have "last (sink ?s') = give_up_notice"
      using False chats by (simp add: fetchGroups_def Let_def state_ops give_up_notice_def)
    ultimately show ?thesis
      by (subst fetch_loop_unfold) simp
  qed
qed

text \<open>
  C6. Every run of \<open>fetchGroups\<close> fetches the chat list once and counts as one
  attempt, whether the fetch resolves or throws. A run that finds groups publishes
  them and schedules one more run 5000 ms later only while fewer than 5 attempts have
  been made; a run that finds none, or whose fetch throws, leaves the directory as it
  was and schedules one more run 5000 ms later while fewer than 20 attempts have been
  made. The loop started by \<open>ready\<close> therefore ends, for every sequence of fetch
  outcomes, after at least 1 and at most 20 attempts, with one fetch per attempt and no
  run left pending; it makes exactly 5 attempts when every fetch finds groups, exactly
  20 when none does (failed fetches included), and after 20 fetches without a group
  its last emission is the notice asking for a manual refresh.
\<close>

theorem group_refresh_bounded:
  "calls (fetchGroups r s) = calls s @ [GetChats]
   \<and> attempts (fetchGroups r s) = attempts s + 1
   \<and> (found_groups r \<longrightarrow>
        (\<exists>chats. r = Inr chats
           \<and> availableGroups (fetchGroups r s)
               = map (\<lambda>chat. \<lparr>group_id = chat_id chat, group_name = chat_name chat\<rparr>)
                     (filter isGroup chats)
           \<and> Groups (availableGroups (fetchGroups r s)) \<in> set (sink (fetchGroups r s)))
        \<and> timers (fetchGroups r s)
            = timers s @ (if attempts s + 1 < 5 then [(FetchGroups, 5000)] else []))
   \<and> (\<not> found_groups r \<longrightarrow>
        availableGroups (fetchGroups r s) = availableGroups s
        \<and> timers (fetchGroups r s)
            = timers s @ (if attempts s + 1 < 20 then [(FetchGroups, 5000)] else []))
   \<and> 1 \<le> attempts (on_ready getChats s) \<and> attempts (on_ready getChats s) \<le> 20
   \<and> calls (on_ready getChats s)
       = calls s @ replicate (attempts (on_ready getChats s)) GetChats
   \<and> timers (on_ready getChats s) = timers s
   \<and> ((\<forall>k. found_groups (getChats k)) \<longrightarrow> attempts (on_ready getChats s) = 5)
   \<and> ((\<forall>k. \<not> found_groups (getChats k)) \<longrightarrow> attempts (on_ready getChats s) = 20)
   \<and> ((\<forall>k. \<exists>chats. getChats k = Inr chats \<and> filter isGroup chats = []) \<longrightarrow>
        last (sink (on_ready getChats s)) = give_up_notice)"
proof -
  define s0 where
    "s0 = (emit (Log ''Fetching groups... (This can take 30s for new logins)'')
             ((emit Ready (updateStatus ''Connected'' s))\<lparr>isReconnecting := False\<rparr>))\<lparr>attempts := 0\<rparr>"
  have ready: "on_ready getChats s = fetch_loop getChats s0"
    by (simp add: on_ready_def s0_def Let_def)
  have s0: "attempts s0 = 0" "calls s0 = calls s" "timers s0 = timers s"
    by (simp_all add: s0_def state_ops)
  have step_found: "found_groups r \<longrightarrow>
        (\<exists>chats. r = Inr chats
           \<and> availableGroups (fetchGroups r s)
               = map (\<lambda>chat. \<lparr>group_id = chat_id chat, group_name = chat_name chat\<rparr>)
                     (filter isGroup chats)
           \<and> Groups (availableGroups (fetchGroups r s)) \<in> set (sink (fetchGroups r s)))
        \<and> timers (fetchGroups r s)
            = timers s @ (if attempts s + 1 < 5 then [(FetchGroups, 5000)] else [])"
    by (cases r) (simp_all add: found_groups_def fetchGroups_found)
  have step_none: "\<not> found_groups r \<longrightarrow>
        availableGroups (fetchGroups r s) = availableGroups s
        \<and> timers (fetchGroups r s)
            = timers s @ (if attempts s + 1 < 20 then [(FetchGroups, 5000)] else [])"
    by (cases r) (simp_all add: found_groups_def fetchGroups_none_found fetchGroups_failed)
  have lower: "1 \<le> attempts (on_ready getChats s)"
    using fetch_loop_attempts_ge [of s0 getChats] by (simp add: ready)
  have upper: "attempts (on_ready getChats s) \<le> 20"
    using fetch_loop_attempts_le [of s0 getChats] by (simp add: ready s0)
  have fetches: "calls (on_ready getChats s)
       = calls s @ replicate (attempts (on_ready getChats s)) GetChats"
    using fetch_loop_calls [of getChats s0] by (simp add: ready s0)
  have pending: "timers (on_ready getChats s) = timers s"
    by (simp add: ready fetch_loop_timers s0)
  have five: "(\<forall>k. found_groups (getChats k)) \<longrightarrow> attempts (on_ready getChats s) = 5"
    by (simp add: ready fetch_loop_all_found s0)
  have twenty: "(\<forall>k. \<not> found_groups (getChats k)) \<longrightarrow> attempts (on_ready getChats s) = 20"
    by (simp add: ready fetch_loop_none_found s0)
  have notice: "(\<forall>k. \<exists>chats. getChats k = Inr chats \<and> filter isGroup chats = []) \<longrightarrow>
        last (sink (on_ready getChats s)) = give_up_notice"
    by (simp add: ready fetch_loop_gives_up s0)
  show ?thesis
    using fetchGroups_calls [of r s] fetchGroups_attempts [of r s]
          step_found step_none lower upper fetches pending five twenty notice
    by blast
qed

theorem group_refresh_bounded_witness:
  "found_groups (Inr [group_chat_A, private_chat])
   \<and> availableGroups (fetchGroups (Inr [group_chat_A, private_chat]) initial_state)
       = [\<lparr>group_id = ''A@g.us'', group_name = ''Family''\<rparr>]
   \<and> timers (fetchGroups (Inr [group_chat_A, private_chat]) initial_state)
       = [(FetchGroups, 5000)]
   \<and> \<not> found_groups (Inr [private_chat])
   \<and> timers (fetchGroups (Inr [private_chat]) (initial_state\<lparr>attempts := 19\<rparr>)) = []
   \<and> attempts (on_ready (\<lambda>k. Inr [group_chat_A, private_chat]) initial_state) = 5
   \<and> attempts (on_ready (\<lambda>k. Inl timeout_error) initial_state) = 20
   \<and> attempts (on_ready (\<lambda>k. Inr [private_chat]) initial_state) = 20
   \<and> last (sink (on_ready (\<lambda>k. Inr [private_chat]) initial_state)) = give_up_notice"
  using group_refresh_bounded
          [of "Inr [group_chat_A, private_chat]" initial_state
              "\<lambda>k. Inr [group_chat_A, private_chat]"]
        group_refresh_bounded
          [of "Inr [private_chat]" "initial_state\<lparr>attempts := 19\<rparr>" "\<lambda>k. Inl timeout_error"]
        group_refresh_bounded
          [of "Inl timeout_error" initial_state "\<lambda>k. Inl timeout_error"]
        group_refresh_bounded
          [of "Inr [private_chat]" initial_state "\<lambda>k. Inr [private_chat]"]
  by (simp add: found_groups_def group_chat_A_def private_chat_def initial_state_def)

subsection \<open>What each state operation touches\<close>

named_theorems frame

lemma emit_frame [frame]:
  "sink (emit e s) = sink s @ [e]" "calls (emit e s) = calls s"
  "timers (emit e s) = timers s" "fs (emit e s) = fs s"
  "config_rules (emit e s) = config_rules s"
  by (simp_all add: emit_def)

lemma engine_frame [frame]:
  "sink (engine c s) = sink s" "calls (engine c s) = calls s @ [c]"
  "timers (engine c s) = timers s" "fs (engine c s) = fs s"
  "config_rules (engine c s) = config_rules s"
  by (simp_all add: engine_def)

lemma setTimeout_frame [frame]:
  "sink (setTimeout f ms s) = sink s" "calls (setTimeout f ms s) = calls s"
  "timers (setTimeout f ms s) = timers s @ [(f, ms)]" "fs (setTimeout f ms s) = fs s"
  "config_rules (setTimeout f ms s) = config_rules s"
  by (simp_all add: setTimeout_def)

lemma mkdirSync_frame [frame]:
  "sink (mkdirSync p s) = sink s" "calls (mkdirSync p s) = calls s"
  "timers (mkdirSync p s) = timers s" "fs (mkdirSync p s) = (fs s)(p \<mapsto> Dir)"
  "config_rules (mkdirSync p s) = config_rules s"
  by (simp_all add: mkdirSync_def)

lemma writeFileSync_frame [frame]:
  "sink (writeFileSync p n s) = sink s" "calls (writeFileSync p n s) = calls s"
  "timers (writeFileSync p n s) = timers s" "fs (writeFileSync p n s) = (fs s)(p \<mapsto> n)"
  "config_rules (writeFileSync p n s) = config_rules s"
  by (simp_all add: writeFileSync_def)

lemma map_filter_append:
  "List.map_filter f (xs @ ys) = List.map_filter f xs @ List.map_filter f ys"
  by (simp add: List.map_filter_def)

lemma transmissions_frame [frame]:
  "transmissions (emit e s) = transmissions s"
  "transmissions (setTimeout f ms s) = transmissions s"
  "transmissions (mkdirSync p s) = transmissions s"
  "transmissions (writeFileSync p n s) = transmissions s"
  "transmissions (engine c s)
     = transmissions s @ (case transmission_target c of None \<Rightarrow> [] | Some t \<Rightarrow> [t])"
  by (simp_all add: transmissions_def frame map_filter_append List.map_filter_simps
               split: option.splits)


text \<open>Unfoldings for evaluating the pipeline on the concrete inputs.\<close>

lemmas pipeline_defs =
  message_create_def deliver_def native_upload_def native_upload_try_def classify_def
  media_data_def media_mimetype_def or_default_def ext_of_def mimeMap_get_def mimeMap_def
  split_0_def split_1_def template_str_def path_join_def publicDir_def CONFIG_FILE_def
  digit_char_def toFixed2_MB_def toUpperCase_def startsWith_def processing_notice_def
  transmissions_def List.map_filter_simps

lemmas example_defs =
  initial_state_def one_rule_def same_rule_twice_def three_rules_def
  rule_A_to_B_def rule_A_to_BC_def rule_X_to_Y_def group_chat_A_def private_chat_def
  photo_msg_def text_msg_def voice_msg_def png_media_def empty_media_def
  all_succeed_def send_fails_def all_fail_def decodes_to_nothing_def first_attempt_fails_def

section \<open>Properties of the delivery pipeline\<close>

lemma base64_QUJD: "base64_decode ''QUJD'' = [65, 66, 67]"
  by (simp add: base64_decode_def b64_value_def List.map_filter_simps)

lemma base64_pad_only: "base64_decode ''='' = []"
  by (simp add: base64_decode_def)

subsection \<open>Stage 1\<close>

lemma native_upload_try_calls_prefix:
  "\<exists>rest. calls (snd (native_upload_try b64 msg t env s)) = calls s @ DownloadMedia (msg_id msg) # rest
          \<and> (\<forall>c \<in> set rest. \<exists>m opts. c = SendMessage t m opts)"
  by (auto simp: native_upload_try_def state_ops Let_def
           split: sum.splits option.splits)

lemma native_upload_absent:
  assumes "download_outcome env = Inr media" and "media_data media = None"
  shows "native_upload b64 msg t env s =
           (False, emit (Log ''Download failed (Data unavailable).'')
                     (engine (DownloadMedia (msg_id msg))
                        (emit (Log ''Downloading media content...'') s)))"
  using assms by (simp add: native_upload_def native_upload_try_def Let_def)

lemma native_upload_zero_bytes:
  assumes "download_outcome env = Inr media" and "media_data media = Some d" and "b64 d = []"
  shows "\<not> fst (native_upload b64 msg t env s)"
    and "calls (snd (native_upload b64 msg t env s)) = calls s @ [DownloadMedia (msg_id msg)]"
    and "timers (snd (native_upload b64 msg t env s)) = timers s"
  using assms
  by (auto simp: native_upload_def native_upload_try_def state_ops Let_def
           split: sum.splits)

lemma native_upload_not_sent:
  "\<not> fst (native_upload b64 msg t env s) \<Longrightarrow> timers (snd (native_upload b64 msg t env s)) = timers s"
  by (auto simp: native_upload_def native_upload_try_def state_ops Let_def
           split: sum.splits option.splits if_splits)

lemma native_upload_sent:
  assumes "fst (native_upload b64 msg t env s)"
  shows "\<exists>ext. let filePath = path_join publicDir
                                  (''temp_'' @ show_nat (now env) @ ''.'' @ template_str ext)
               in statSync_size (snd (native_upload b64 msg t env s)) filePath \<noteq> 0
                \<and> timers (snd (native_upload b64 msg t env s))
                    = timers s @ [(UnlinkTemp filePath, 30000)]
                \<and> \<not> existsSync (unlinkTemp filePath (snd (native_upload b64 msg t env s)))
                                filePath"
proof -
  from assms obtain media d ext where
    "download_outcome env = Inr media" and "media_data media = Some d"
    and "ext_of (or_default (media_mimetype media) ''application/octet-stream'') = Inr ext"
    and "b64 d \<noteq> []" and "send_outcome env = None"
    by (auto simp: native_upload_def native_upload_try_def state_ops Let_def
             split: sum.splits option.splits if_splits)
  then show ?thesis
    by (intro exI [of _ ext])
       (simp add: native_upload_def native_upload_try_def unlinkTemp_def state_ops Let_def)
qed

lemma unlinkTemp_absent: "\<not> existsSync s filePath \<Longrightarrow> unlinkTemp filePath s = s"
  by (simp add: unlinkTemp_def)

lemma unlinkTemp_twice: "unlinkTemp filePath (unlinkTemp filePath s) = unlinkTemp filePath s"
  by (simp add: unlinkTemp_def existsSync_def unlinkSync_def)

text \<open>
  C1, at a send that throws. The payload is downloaded and written to
  \<open>public/temp_1700000000000.png\<close>, \<open>client.sendMessage\<close> throws, and control
  leaves the \<open>try\<close> before the \<open>setTimeout\<close> of the cleanup: after the attempt
  (which went on to forward the message) the file is still in the public directory
  and no timer is pending, so nothing will ever delete it. The same holds for the
  empty file left behind when the payload decodes to zero bytes. Only a send that
  succeeds schedules the deletion, 30000 ms later, and that deletion removes the file
  (\<open>native_upload_sent\<close>); the deletion itself is idempotent (\<open>unlinkTemp_absent\<close>).
\<close>

theorem send_failure_leaves_temp_file:
  "fs (deliver base64_decode photo_msg ''B@g.us'' send_fails initial_state)
      ''public/temp_1700000000000.png'' = Some (File [65, 66, 67])
   \<and> timers (deliver base64_decode photo_msg ''B@g.us'' send_fails initial_state) = []
   \<and> calls (deliver base64_decode photo_msg ''B@g.us'' send_fails initial_state)
       = [DownloadMedia ''true_A@g.us_3EB0'',
          SendMessage ''B@g.us''
            \<lparr>mm_mimetype = ''image/png'', mm_filename = ''temp_1700000000000.png'',
             mm_bytes = [65, 66, 67]\<rparr>
            \<lparr>caption = ''look'', sendAudioAsVoice = False, sendMediaAsDocument = False\<rparr>,
          Forward ''true_A@g.us_3EB0'' ''B@g.us'']
   \<and> fs (deliver base64_decode photo_msg ''B@g.us'' decodes_to_nothing initial_state)
      ''public/temp_1700000000000.png'' = Some (File [])
   \<and> timers (deliver base64_decode photo_msg ''B@g.us'' decodes_to_nothing initial_state) = []
   \<and> timers (deliver base64_decode photo_msg ''B@g.us'' all_succeed initial_state)
       = [(UnlinkTemp ''public/temp_1700000000000.png'', 30000)]
   \<and> fs (unlinkTemp ''public/temp_1700000000000.png''
            (deliver base64_decode photo_msg ''B@g.us'' all_succeed initial_state))
      ''public/temp_1700000000000.png'' = None"
  by (simp add: pipeline_defs example_defs state_ops unlinkTemp_def Let_def base64_QUJD
                base64_pad_only)

text \<open>
  C5. When the message has downloadable content and the download resolves with no
  payload (\<open>undefined\<close>, or no or empty \<open>data\<close>), or with a payload that is zero bytes
  long once written to the temporary file, stage 1 does not report success, no
  \<open>sendMessage\<close> is made, and the original message is forwarded to the target: the
  attempt's calls into the engine are the download and the forward, in that order.
\<close>

theorem empty_payload_falls_back_to_forward:
  "msg_hasMedia msg \<and> download_outcome env = Inr media \<and>
   (media_data media = None \<or> (\<exists>d. media_data media = Some d \<and> b64 d = []))
   \<longrightarrow> \<not> fst (native_upload b64 msg targetId env s)
     \<and> calls (deliver b64 msg targetId env s)
         = calls s @ [DownloadMedia (msg_id msg), Forward (msg_id msg) targetId]"
proof (intro impI)
  assume a: "msg_hasMedia msg \<and> download_outcome env = Inr media \<and>
             (media_data media = None \<or> (\<exists>d. media_data media = Some d \<and> b64 d = []))"
  let ?s1 = "emit (Log (''--> Processing '' @ msg_type msg @ '' for target...'')) s"
  have stage1: "\<not> fst (native_upload b64 msg targetId env s')
      \<and> calls (snd (native_upload b64 msg targetId env s')) = calls s' @ [DownloadMedia (msg_id msg)]"
    for s'
  proof (cases "media_data media")
    case None
    with a show ?thesis
      by (simp add: native_upload_absent [of env media] state_ops)
  next
    case (Some d)
    with a have "b64 d = []"
      by simp
    with a Some show ?thesis
      by (simp add: native_upload_zero_bytes [of env media d b64])
  qed
  have "calls (deliver b64 msg targetId env s)
          = calls (snd (native_upload b64 msg targetId env ?s1)) @ [Forward (msg_id msg) targetId]"
    using a stage1 [of ?s1]
    by (simp add: deliver_def Let_def state_ops split_beta split: option.splits)
  with stage1 [of s] stage1 [of ?s1]
  show "\<not> fst (native_upload b64 msg targetId env s)
     \<and> calls (deliver b64 msg targetId env s)
         = calls s @ [DownloadMedia (msg_id msg), Forward (msg_id msg) targetId]"
    by (simp add: state_ops)
qed

theorem empty_payload_falls_back_to_forward_witness:
  "msg_hasMedia photo_msg
   \<and> media_data (Some empty_media) = Some ''=''
   \<and> base64_decode ''='' = []
   \<and> calls (deliver base64_decode photo_msg ''B@g.us'' decodes_to_nothing initial_state)
       = [DownloadMedia ''true_A@g.us_3EB0'', Forward ''true_A@g.us_3EB0'' ''B@g.us'']
   \<and> media_data None = None
   \<and> calls (deliver base64_decode photo_msg ''B@g.us''
               (all_succeed\<lparr>download_outcome := Inr None\<rparr>) initial_state)
       = [DownloadMedia ''true_A@g.us_3EB0'', Forward ''true_A@g.us_3EB0'' ''B@g.us'']"
  using empty_payload_falls_back_to_forward
          [of photo_msg decodes_to_nothing "Some empty_media" base64_decode "''B@g.us''"
              initial_state]
        empty_payload_falls_back_to_forward
          [of photo_msg "all_succeed\<lparr>download_outcome := Inr None\<rparr>" None base64_decode
              "''B@g.us''" initial_state]
  by (simp add: photo_msg_def decodes_to_nothing_def all_succeed_def empty_media_def
                media_data_def base64_pad_only initial_state_def)

subsection \<open>Skipped messages\<close>

text \<open>
  C7, as amended. A message in a group with at least one matching rule that does not
  classify as media is discarded: no call into the engine, no timer, no file. After the
  debug line that every group message gets, a skip notice naming the declared type is
  emitted when the declared type is not \<open>chat\<close>; for a text message (\<open>chat\<close>) nothing
  more is emitted to the Event Sink.
\<close>

theorem non_media_is_skipped:
  "isGroup chat \<and> filter (\<lambda>r. source r = chat_id chat) (config_rules s) \<noteq> [] \<and>
   \<not> fst (classify msg)
   \<longrightarrow> calls (message_create b64 msg (Inr chat) envs s) = calls s
     \<and> timers (message_create b64 msg (Inr chat) envs s) = timers s
     \<and> fs (message_create b64 msg (Inr chat) envs s) = fs s
     \<and> sink (message_create b64 msg (Inr chat) envs s)
         = sink s @ Log (''DEBUG: Saw '' @ msg_type msg @ '' in '' @ chat_name chat)
             # (if msg_type msg = ''chat'' then []
                else [Log (''Skipped '' @ msg_type msg @ '' (Not an image/video) '' @
                           no_entry_sign)])"
  by (cases "classify msg") (simp add: message_create_def Let_def state_ops)

theorem non_media_is_skipped_witness:
  "isGroup group_chat_A
   \<and> filter (\<lambda>r. source r = chat_id group_chat_A) (config_rules one_rule) = [rule_A_to_BC]
   \<and> \<not> fst (classify voice_msg)
   \<and> calls (message_create base64_decode voice_msg (Inr group_chat_A) (\<lambda>k. all_succeed) one_rule)
       = []
   \<and> sink (message_create base64_decode voice_msg (Inr group_chat_A) (\<lambda>k. all_succeed) one_rule)
       = [Log ''DEBUG: Saw ptt in Family'',
          Log (''Skipped ptt (Not an image/video) '' @ no_entry_sign)]"
  using non_media_is_skipped
          [of group_chat_A one_rule voice_msg base64_decode "\<lambda>k. all_succeed"]
  by (simp add: group_chat_A_def one_rule_def initial_state_def rule_A_to_BC_def
                rule_X_to_Y_def voice_msg_def classify_def or_default_def)

text \<open>
  C7, as stated, fails for a text message: it is in a group with a matching rule and
  does not classify as media, yet the only thing emitted to the Event Sink is the
  debug line; there is no skip notice.
\<close>

theorem text_message_no_skip_notice_counterexample:
  "isGroup group_chat_A
   \<and> filter (\<lambda>r. source r = chat_id group_chat_A) (config_rules one_rule) = [rule_A_to_BC]
   \<and> \<not> fst (classify text_msg)
   \<and> sink (message_create base64_decode text_msg (Inr group_chat_A) (\<lambda>k. all_succeed) one_rule)
       = [Log ''DEBUG: Saw chat in Family'']"
  by (simp add: group_chat_A_def one_rule_def initial_state_def rule_A_to_BC_def
                rule_X_to_Y_def text_msg_def classify_def or_default_def
                message_create_def Let_def state_ops)

subsection \<open>The loops\<close>

lemma deliver_targets_fold:
  "deliver_targets b64 msg chatId envs ts ks
     = foldl (attempt_step b64 msg envs) ks (filter (\<lambda>t. t \<noteq> chatId) ts)"
proof (induction ts arbitrary: ks)
  case Nil
  show ?case by simp
next
  case (Cons t ts)
  show ?case
    by (cases ks) (simp add: Cons.IH attempt_step_def)
qed

lemma deliver_rules_fold:
  "deliver_rules b64 msg chatId envs rules ks
     = foldl (attempt_step b64 msg envs) ks
         (filter (\<lambda>t. t \<noteq> chatId) (concat (map targets rules)))"
  by (induction rules arbitrary: ks) (simp_all add: deliver_targets_fold)

lemma native_upload_try_notice:
  "count_list (sink (snd (native_upload_try b64 msg t env s))) (processing_notice ty)
     = count_list (sink s) (processing_notice ty)"
  by (simp add: native_upload_try_def processing_notice_def frame Let_def
           split: sum.splits option.splits)

lemma native_upload_notice:
  "count_list (sink (snd (native_upload b64 msg t env s))) (processing_notice ty)
     = count_list (sink s) (processing_notice ty)"
proof (cases "native_upload_try b64 msg t env s")
  case (Pair r s')
  with native_upload_try_notice [of b64 msg t env s ty]
  have "count_list (sink s') (processing_notice ty) = count_list (sink s) (processing_notice ty)"
    by simp
  with Pair show ?thesis
    by (cases r) (simp_all add: native_upload_def frame processing_notice_def)
qed

lemma deliver_notice:
  "count_list (sink (deliver b64 msg t env s)) (processing_notice (msg_type msg))
     = Suc (count_list (sink s) (processing_notice (msg_type msg)))"
proof (cases "msg_hasMedia msg")
  case False
  then show ?thesis
    by (simp add: deliver_def Let_def frame processing_notice_def split: option.splits)
next
  case True
  let ?s1 = "emit (Log (''--> Processing '' @ msg_type msg @ '' for target...'')) s"
  obtain sent s2 where up: "native_upload b64 msg t env ?s1 = (sent, s2)"
    by (cases "native_upload b64 msg t env ?s1")
  with native_upload_notice [of b64 msg t env ?s1 "msg_type msg"]
  have "count_list (sink s2) (processing_notice (msg_type msg))
          = Suc (count_list (sink s) (processing_notice (msg_type msg)))"
    by (simp add: frame processing_notice_def)
  with True up show ?thesis
    by (simp add: deliver_def Let_def frame processing_notice_def split: option.splits)
qed

lemma native_upload_try_transmissions:
  "(transmissions (snd (native_upload_try b64 msg t env s)) = transmissions s
      \<or> transmissions (snd (native_upload_try b64 msg t env s)) = transmissions s @ [t])
   \<and> (fst (native_upload_try b64 msg t env s) = Inr True \<longrightarrow>
        transmissions (snd (native_upload_try b64 msg t env s)) = transmissions s @ [t])"
  by (simp add: native_upload_try_def frame Let_def split: sum.splits option.splits)

lemma native_upload_transmissions:
  "(transmissions (snd (native_upload b64 msg t env s)) = transmissions s
      \<or> transmissions (snd (native_upload b64 msg t env s)) = transmissions s @ [t])
   \<and> (fst (native_upload b64 msg t env s) \<longrightarrow>
        transmissions (snd (native_upload b64 msg t env s)) = transmissions s @ [t])"
proof (cases "native_upload_try b64 msg t env s")
  case (Pair r s')
  with native_upload_try_transmissions [of b64 msg t env s]
  have "(transmissions s' = transmissions s \<or> transmissions s' = transmissions s @ [t])
        \<and> (r = Inr True \<longrightarrow> transmissions s' = transmissions s @ [t])"
    by simp
  with Pair show ?thesis
    by (cases r) (auto simp: native_upload_def frame)
qed

lemma deliver_transmissions:
  "transmissions (deliver b64 msg t env s) = transmissions s @ [t]
   \<or> transmissions (deliver b64 msg t env s) = transmissions s @ [t, t]"
proof (cases "msg_hasMedia msg")
  case False
  then show ?thesis
    by (simp add: deliver_def Let_def frame split: option.splits)
next
  case True
  let ?s1 = "emit (Log (''--> Processing '' @ msg_type msg @ '' for target...'')) s"
  obtain sent s2 where up: "native_upload b64 msg t env ?s1 = (sent, s2)"
    by (cases "native_upload b64 msg t env ?s1")
  with native_upload_transmissions [of b64 msg t env ?s1]
  have "(transmissions s2 = transmissions s \<or> transmissions s2 = transmissions s @ [t])
        \<and> (sent \<longrightarrow> transmissions s2 = transmissions s @ [t])"
    by (simp add: frame)
  with True up show ?thesis
    by (cases sent) (auto simp: deliver_def Let_def frame split: option.splits)
qed

lemma attempts_notices:
  "count_list (sink (snd (foldl (attempt_step b64 msg envs) ks ts)))
              (processing_notice (msg_type msg))
     = count_list (sink (snd ks)) (processing_notice (msg_type msg)) + length ts"
  by (induction ts arbitrary: ks) (simp_all add: attempt_step_def deliver_notice)

lemma attempts_transmissions:
  "\<exists>X. transmissions (snd (foldl (attempt_step b64 msg envs) ks ts))
          = transmissions (snd ks) @ X \<and> set X = set ts"
proof (induction ts arbitrary: ks)
  case Nil
  show ?case by simp
next
  case (Cons t ts)
  let ?ks = "attempt_step b64 msg envs ks t"
  from Cons.IH [of ?ks] obtain X where
    X: "transmissions (snd (foldl (attempt_step b64 msg envs) ?ks ts))
          = transmissions (snd ?ks) @ X" "set X = set ts"
    by blast
  from deliver_transmissions [of b64 msg t "envs (fst ks)" "snd ks"]
  obtain Y where Y: "transmissions (snd ?ks) = transmissions (snd ks) @ Y" "set Y = {t}"
    by (auto simp: attempt_step_def)
  have "transmissions (snd (foldl (attempt_step b64 msg envs) ks (t # ts)))
          = transmissions (snd ks) @ (Y @ X)"
    using X Y by simp
  moreover have "set (Y @ X) = set (t # ts)"
    using X Y by simp
  ultimately show ?case
    by blast
qed

text \<open>
  C2, as amended. A media message in a group with matching rules gets one delivery
  attempt for every (rule, target) pair whose target is not the message's own chat, in
  the order of the table, whatever each attempt observes: the processing notice is
  emitted once per pair and every such target is transmitted to (by \<open>sendMessage\<close> or
  by \<open>forward\<close>), also when the download, the send and the forward of other attempts
  all throw. A target listed twice (in one rule or in two) is attempted twice, so the
  number of attempts is the number of distinct targets only when no target is listed
  twice. For a single rule from A to B and C there are exactly two attempts, and C is
  transmitted to whatever happens in the attempt for B.
\<close>

theorem delivery_attempts_independent:
  "isGroup chat \<and> fst (classify msg)
   \<and> validRules = filter (\<lambda>r. source r = chat_id chat) (config_rules s) \<and> validRules \<noteq> []
   \<and> pairs = filter (\<lambda>t. t \<noteq> chat_id chat) (concat (map targets validRules))
   \<and> s' = message_create b64 msg (Inr chat) envs s
   \<longrightarrow> count_list (sink s') (processing_notice (msg_type msg))
         = count_list (sink s) (processing_notice (msg_type msg)) + length pairs
     \<and> (\<exists>X. transmissions s' = transmissions s @ X \<and> set X = set pairs)
     \<and> (distinct pairs \<longrightarrow>
           length pairs = card (set (concat (map targets validRules)) - {chat_id chat}))
     \<and> (validRules = [\<lparr>source = chat_id chat, targets = [B, C]\<rparr>]
           \<and> B \<noteq> chat_id chat \<and> C \<noteq> chat_id chat \<longrightarrow>
         count_list (sink s') (processing_notice (msg_type msg))
           = count_list (sink s) (processing_notice (msg_type msg)) + 2
         \<and> (\<exists>X. transmissions s' = transmissions s @ X \<and> C \<in> set X))"
proof (intro impI)
  assume a: "isGroup chat \<and> fst (classify msg)
   \<and> validRules = filter (\<lambda>r. source r = chat_id chat) (config_rules s) \<and> validRules \<noteq> []
   \<and> pairs = filter (\<lambda>t. t \<noteq> chat_id chat) (concat (map targets validRules))
   \<and> s' = message_create b64 msg (Inr chat) envs s"
  let ?s1 = "emit (Log (''DEBUG: Saw '' @ msg_type msg @ '' in '' @ chat_name chat)) s"
  let ?s2 = "emit (Log (''Detected '' @ toUpperCase (msg_type msg) @ '' ('' @ snd (classify msg) @
                        '') in '' @ chat_name chat)) ?s1"
  from a have g: "isGroup chat" and m: "fst (classify msg)"
    and vr: "validRules = filter (\<lambda>r. source r = chat_id chat) (config_rules s)"
    and ne: "validRules \<noteq> []"
    and p: "pairs = filter (\<lambda>t. t \<noteq> chat_id chat) (concat (map targets validRules))"
    and sdef: "s' = message_create b64 msg (Inr chat) envs s"
    by blast+
  have "message_create b64 msg (Inr chat) envs s
          = snd (foldl (attempt_step b64 msg envs) (0, ?s2)
                   (filter (\<lambda>t. t \<noteq> chat_id chat)
                      (concat (map targets
                         (filter (\<lambda>r. source r = chat_id chat) (config_rules s))))))"
    using g m ne [unfolded vr]
    by (cases "classify msg") (simp add: message_create_def Let_def frame deliver_rules_fold)
  then have s': "s' = snd (foldl (attempt_step b64 msg envs) (0, ?s2) pairs)"
    by (simp add: sdef vr p)
  have notices: "count_list (sink s') (processing_notice (msg_type msg))
         = count_list (sink s) (processing_notice (msg_type msg)) + length pairs"
    using attempts_notices [of b64 msg envs "(0, ?s2)" pairs]
    by (simp add: s' frame processing_notice_def)
  have trans: "\<exists>X. transmissions s' = transmissions s @ X \<and> set X = set pairs"
    using attempts_transmissions [of b64 msg envs "(0, ?s2)" pairs]
    by (simp add: s' frame)
  have distinct_case: "distinct pairs \<longrightarrow>
           length pairs = card (set (concat (map targets validRules)) - {chat_id chat})"
  proof
    assume "distinct pairs"
    then have "length pairs = card (set pairs)"
      by (simp add: distinct_card)
    also have "set pairs = set (concat (map targets validRules)) - {chat_id chat}"
      using a by auto
    finally show "length pairs = card (set (concat (map targets validRules)) - {chat_id chat})" .
  qed
  have two: "validRules = [\<lparr>source = chat_id chat, targets = [B, C]\<rparr>]
           \<and> B \<noteq> chat_id chat \<and> C \<noteq> chat_id chat \<longrightarrow>
         count_list (sink s') (processing_notice (msg_type msg))
           = count_list (sink s) (processing_notice (msg_type msg)) + 2
         \<and> (\<exists>X. transmissions s' = transmissions s @ X \<and> C \<in> set X)"
  proof
    assume r: "validRules = [\<lparr>source = chat_id chat, targets = [B, C]\<rparr>]
                 \<and> B \<noteq> chat_id chat \<and> C \<noteq> chat_id chat"
    with a have "pairs = [B, C]"
      by simp
    with notices trans
    show "count_list (sink s') (processing_notice (msg_type msg))
           = count_list (sink s) (processing_notice (msg_type msg)) + 2
         \<and> (\<exists>X. transmissions s' = transmissions s @ X \<and> C \<in> set X)"
      by auto
  qed
  from notices trans distinct_case two
  show "count_list (sink s') (processing_notice (msg_type msg))
         = count_list (sink s) (processing_notice (msg_type msg)) + length pairs
     \<and> (\<exists>X. transmissions s' = transmissions s @ X \<and> set X = set pairs)
     \<and> (distinct pairs \<longrightarrow>
           length pairs = card (set (concat (map targets validRules)) - {chat_id chat}))
     \<and> (validRules = [\<lparr>source = chat_id chat, targets = [B, C]\<rparr>]
           \<and> B \<noteq> chat_id chat \<and> C \<noteq> chat_id chat \<longrightarrow>
         count_list (sink s') (processing_notice (msg_type msg))
           = count_list (sink s) (processing_notice (msg_type msg)) + 2
         \<and> (\<exists>X. transmissions s' = transmissions s @ X \<and> C \<in> set X))"
    by blast
qed

theorem delivery_attempts_independent_witness:
  "isGroup group_chat_A \<and> fst (classify photo_msg)
   \<and> filter (\<lambda>r. source r = chat_id group_chat_A) (config_rules one_rule) = [rule_A_to_BC]
   \<and> rule_A_to_BC = \<lparr>source = chat_id group_chat_A, targets = [''B@g.us'', ''C@g.us'']\<rparr>
   \<and> distinct [''B@g.us'', ''C@g.us'']
   \<and> download_outcome (first_attempt_fails 0) = Inl (Error ''Protocol error: Target closed'')
   \<and> forward_outcome (first_attempt_fails 0) = Some (Error ''Evaluation failed: t'')
   \<and> count_list (sink (message_create base64_decode photo_msg (Inr group_chat_A)
                          first_attempt_fails one_rule)) (processing_notice ''image'') = 2
   \<and> transmissions (message_create base64_decode photo_msg (Inr group_chat_A)
                       first_attempt_fails one_rule) = [''B@g.us'', ''C@g.us'']
   \<and> calls (message_create base64_decode photo_msg (Inr group_chat_A)
               first_attempt_fails one_rule)
       = [DownloadMedia ''true_A@g.us_3EB0'',
          Forward ''true_A@g.us_3EB0'' ''B@g.us'',
          DownloadMedia ''true_A@g.us_3EB0'',
          SendMessage ''C@g.us''
            \<lparr>mm_mimetype = ''image/png'', mm_filename = ''temp_1700000000000.png'',
             mm_bytes = [65, 66, 67]\<rparr>
            \<lparr>caption = ''look'', sendAudioAsVoice = False, sendMediaAsDocument = False\<rparr>]"
  using delivery_attempts_independent
          [where chat = group_chat_A and msg = photo_msg and validRules = "[rule_A_to_BC]"
             and s = one_rule and pairs = "[''B@g.us'', ''C@g.us'']"
             and s' = "message_create base64_decode photo_msg (Inr group_chat_A)
                         first_attempt_fails one_rule"
             and ?b64.0 = base64_decode and envs = first_attempt_fails
             and B = "''B@g.us''" and C = "''C@g.us''"]
  by (simp add: pipeline_defs example_defs state_ops Let_def base64_QUJD)

text \<open>
  C2, as stated, fails when a target is listed twice. With the same rule from A to B
  in the table twice, an image in A matches two rules whose combined targets are the
  one group B, so the claim allows at most one delivery attempt; the pipeline makes
  two, and B receives the image twice.
\<close>

theorem duplicate_target_counterexample:
  "isGroup group_chat_A \<and> fst (classify photo_msg)
   \<and> filter (\<lambda>r. source r = chat_id group_chat_A) (config_rules same_rule_twice)
       = [rule_A_to_B, rule_A_to_B]
   \<and> card (set (concat (map targets [rule_A_to_B, rule_A_to_B])) - {chat_id group_chat_A}) = 1
   \<and> count_list (sink (message_create base64_decode photo_msg (Inr group_chat_A)
                          (\<lambda>k. all_succeed) same_rule_twice)) (processing_notice ''image'') = 2
   \<and> transmissions (message_create base64_decode photo_msg (Inr group_chat_A)
                       (\<lambda>k. all_succeed) same_rule_twice) = [''B@g.us'', ''B@g.us'']"
  by (simp add: pipeline_defs example_defs state_ops Let_def base64_QUJD)

end
